theory Spec2Isabelle
  imports Main "HOL-Library.Word"
begin

section \<open>JavaScript strings and values\<close>

text \<open>
  A JavaScript string is modelled as the list of its UTF-16 code units, restricted to code
  units below 256, so that a string is a \<open>char list\<close>. The white space that
  \<open>String.prototype.trim\<close> removes is, in that range, TAB, LF, VT, FF, CR, SPACE and NBSP.
\<close>

definition isWhiteSpace :: "char \<Rightarrow> bool" where
  "isWhiteSpace c \<longleftrightarrow> c \<in> set [CHR 0x09, CHR 0x0A, CHR 0x0B, CHR 0x0C, CHR 0x0D, CHR 0x20, CHR 0xA0]"

definition trim :: "string \<Rightarrow> string" where
  "trim s = rev (dropWhile isWhiteSpace (rev (dropWhile isWhiteSpace s)))"

text \<open>\<open>s.split(c)\<close> for a one-character separator: the empty string gives one empty piece.\<close>

fun splitOn :: "char \<Rightarrow> string \<Rightarrow> string list" where
  "splitOn c [] = [[]]"
| "splitOn c (x # xs) =
     (if x = c then [] # splitOn c xs
      else (case splitOn c xs of [] \<Rightarrow> [[x]] | p # ps \<Rightarrow> (x # p) # ps))"

text \<open>\<open>s.indexOf(c)\<close>: the index of the first occurrence, \<open>-1\<close> when there is none.\<close>

fun indexOf :: "string \<Rightarrow> char \<Rightarrow> int" where
  "indexOf [] c = - 1"
| "indexOf (x # xs) c =
     (if x = c then 0 else (let i = indexOf xs c in if i = - 1 then - 1 else i + 1))"

definition substring :: "string \<Rightarrow> nat \<Rightarrow> nat \<Rightarrow> string" where
  "substring s a b = take (b - a) (drop a s)"

definition substringFrom :: "string \<Rightarrow> nat \<Rightarrow> string" where
  "substringFrom s a = drop a s"

fun startsWith :: "string \<Rightarrow> char \<Rightarrow> bool" where
  "startsWith [] c = False"
| "startsWith (x # xs) c = (x = c)"

text \<open>
  The values \<open>JSON.parse\<close> can return. A number is kept as its literal text, an object as
  the list of its own properties.
\<close>

datatype json =
    JNull
  | JBool bool
  | JNumber string
  | JString string
  | JArray "json list"
  | JObject "(string \<times> json) list"

fun typeof :: "json \<Rightarrow> string" where
  "typeof JNull = ''object''"
| "typeof (JBool b) = ''boolean''"
| "typeof (JNumber n) = ''number''"
| "typeof (JString s) = ''string''"
| "typeof (JArray xs) = ''object''"
| "typeof (JObject ps) = ''object''"

fun isArray :: "json \<Rightarrow> bool" where
  "isArray (JArray xs) = True"
| "isArray v = False"

text \<open>
  \<open>result[key] = value\<close> on an object created by the literal \<open>{}\<close>: an existing own
  property is overwritten in place, a new one is appended. The name \<open>__proto__\<close> is the
  accessor inherited from \<open>Object.prototype\<close>, whose setter ignores a string value, so
  that assignment creates no own property.
\<close>

fun updateProperty :: "string \<Rightarrow> string \<Rightarrow> (string \<times> string) list \<Rightarrow> (string \<times> string) list" where
  "updateProperty k v [] = [(k, v)]"
| "updateProperty k v (p # ps) = (if fst p = k then (k, v) # ps else p # updateProperty k v ps)"

definition assignProperty :: "(string \<times> string) list \<Rightarrow> string \<Rightarrow> string \<Rightarrow> (string \<times> string) list" where
  "assignProperty result key val =
     (if key = ''__proto__'' then result else updateProperty key val result)"

section \<open>upload.ts: parseKeyValuePairs\<close>

text \<open>
  The body of the \<open>for (const pair of pairs)\<close> loop, with the warnings emitted so far and
  the object \<open>result\<close> as loop state.
\<close>

fun parsePairs :: "string \<Rightarrow> string list \<Rightarrow> string list \<times> (string \<times> string) list
    \<Rightarrow> string list \<times> (string \<times> string) list" where
  "parsePairs name [] (ws, result) = (ws, result)"
| "parsePairs name (pair # pairs) (ws, result) =
     (let trimmedPair = trim pair in
      if trimmedPair = [] then parsePairs name pairs (ws, result)
      else
        (let separatorIndex = indexOf trimmedPair (CHR ''='') in
         if separatorIndex = - 1
         then parsePairs name pairs
                (ws @ [''Skipping invalid '' @ name @ '' pair: '' @ trimmedPair], result)
         else
           (let key = trim (substring trimmedPair 0 (nat separatorIndex));
                val = trim (substringFrom trimmedPair (nat (separatorIndex + 1)))
            in if key \<noteq> [] then parsePairs name pairs (ws, assignProperty result key val)
               else parsePairs name pairs (ws, result))))"

text \<open>The part of the function after the JSON attempt: the semicolon-separated format.\<close>

definition parseSemicolon :: "string \<Rightarrow> string \<Rightarrow> string list \<times> json option" where
  "parseSemicolon trimmed name =
     (let (ws, result) = parsePairs name (splitOn (CHR '';'') trimmed) ([], [])
      in (ws, if length result > 0 then Some (JObject (map (\<lambda>(k, v). (k, JString v)) result))
              else None))"

text \<open>
  \<open>parseKeyValuePairs(input, name)\<close>. \<open>JSON.parse\<close> is the runtime's, taken as a parameter:
  it returns the parsed value, or throws, and then \<open>Inl\<close> carries the text of the error as
  the template string renders it. The result is the list of warnings given to
  \<open>core.warning\<close> and the returned value, \<open>None\<close> for \<open>undefined\<close>.
\<close>

definition parseKeyValuePairs ::
    "(string \<Rightarrow> string + json) \<Rightarrow> string option \<Rightarrow> string \<Rightarrow> string list \<times> json option" where
  "parseKeyValuePairs JSON_parse input name =
     (case input of
        None \<Rightarrow> ([], None)
      | Some inp \<Rightarrow>
          if inp = [] \<or> trim inp = [] then ([], None)
          else
            (let trimmed = trim inp in
             if startsWith trimmed (CHR ''{'')
             then (case JSON_parse trimmed of
                     Inr parsed \<Rightarrow>
                       if typeof parsed \<noteq> ''object'' \<or> isArray parsed
                       then ([name @ '' must be a JSON object''], None)
                       else ([], Some parsed)
                   | Inl err \<Rightarrow>
                       (let (ws, r) = parseSemicolon trimmed name
                        in ((''Failed to parse '' @ name @ '' as JSON: '' @ err) # ws, r)))
             else parseSemicolon trimmed name))"

definition parseMetadata :: "(string \<Rightarrow> string + json) \<Rightarrow> string option \<Rightarrow> string list \<times> json option" where
  "parseMetadata JSON_parse metadataInput = parseKeyValuePairs JSON_parse metadataInput ''metadata''"

section \<open>Errors, numbers and the trace of a run\<close>

text \<open>
  A thrown value is either an \<open>Error\<close> object, of which the program reads the message, or
  some other value (the \<open>else\<close> branch of \<open>error instanceof Error\<close>).
\<close>

datatype js_error = Error string | NonError

text \<open>
  \<open>n.toString()\<close> of a non-negative integer: its decimal digits (JavaScript prints an
  integer below \<open>10\<^sup>2\<^sup>1\<close> so; status codes and byte counts are far below).
\<close>

definition digitChar :: "nat \<Rightarrow> char" where
  "digitChar d = char_of (48 + d)"

function toString :: "nat \<Rightarrow> string" where
  "toString n = (if n < 10 then [digitChar n] else toString (n div 10) @ [digitChar (n mod 10)])"
  by pat_completeness auto
termination
  by (relation "measure id") auto

declare toString.simps [simp del]

text \<open>\<open>xs.join(sep)\<close>.\<close>

fun join :: "string \<Rightarrow> string list \<Rightarrow> string" where
  "join sep [] = []"
| "join sep [x] = x"
| "join sep (x # y # ys) = x @ sep @ join sep (y # ys)"

text \<open>
  What a run does to the outside, in order: the calls of \<open>core.setOutput\<close>,
  \<open>core.warning\<close> and \<open>core.setFailed\<close>, and the requests to the collaborators.
  The lines given to \<open>core.info\<close> and \<open>core.error\<close> are diagnostics only and are left
  out of the trace. The calls of the toolkit themselves are taken not to throw.
\<close>

record FileMetadata =
  fm_cacheControl :: "string option"
  fm_metadata :: "json option"

record CreateWriteStreamOptions =
  ws_contentType :: "string option"
  ws_predefinedAcl :: "string option"
  ws_resumable :: bool
  ws_metadata :: "FileMetadata option"

datatype event =
    SetOutput string string
  | Warning string
  | SetFailed string
  | FileExists string string
  | DownloadAsStream
  | CreateWriteStream string string CreateWriteStreamOptions
  | SetStorageClass string
  | GetMetadata

definition outputsOf :: "event list \<Rightarrow> (string \<times> string) list" where
  "outputsOf t = concat (map (\<lambda>e. case e of SetOutput k v \<Rightarrow> [(k, v)] | _ \<Rightarrow> []) t)"

definition warningsOf :: "event list \<Rightarrow> string list" where
  "warningsOf t = concat (map (\<lambda>e. case e of Warning w \<Rightarrow> [w] | _ \<Rightarrow> []) t)"

definition failuresOf :: "event list \<Rightarrow> string list" where
  "failuresOf t = concat (map (\<lambda>e. case e of SetFailed m \<Rightarrow> [m] | _ \<Rightarrow> []) t)"

definition fetchCalls :: "event list \<Rightarrow> nat" where
  "fetchCalls t = length (filter (\<lambda>e. e = DownloadAsStream) t)"

definition isStorageWrite :: "event \<Rightarrow> bool" where
  "isStorageWrite e = (case e of CreateWriteStream b ob opts \<Rightarrow> True | SetStorageClass c \<Rightarrow> True
                        | GetMetadata \<Rightarrow> True | _ \<Rightarrow> False)"

definition uploadCalls :: "event list \<Rightarrow> nat" where
  "uploadCalls t = length (filter isStorageWrite t)"

section \<open>The byte-counting stream and the collaborators\<close>

type_synonym chunk = "8 word list"

text \<open>
  Modelled from the spec: \<open>ByteCountingStream\<close> of download.ts, which is not among the
  sources. It wraps the response body, forwards every chunk unchanged and adds the length
  of each chunk it forwards to its counter, which \<open>getBytesTransferred\<close> reads.
\<close>

record ByteCountingStream =
  unread :: "chunk list"
  bytesTransferred :: nat

text \<open>Modelled from the spec: a counting stream fresh from the download has counted nothing.\<close>

definition newByteCountingStream :: "chunk list \<Rightarrow> ByteCountingStream" where
  "newByteCountingStream body = \<lparr>unread = body, bytesTransferred = 0\<rparr>"

text \<open>Modelled from the spec: \<open>getBytesTransferred\<close> reads the counter.\<close>

definition getBytesTransferred :: "ByteCountingStream \<Rightarrow> nat" where
  "getBytesTransferred s = bytesTransferred s"

text \<open>
  \<open>options.stream.pipe(writeStream)\<close> with the promise around it: the chunks go through
  the counting stream into the write stream one at a time. \<open>werr i\<close> is the error the write
  stream emits when it is offered its \<open>i\<close>-th write, the write after the last chunk being
  the closing one that leads to \<open>finish\<close>. The source delivers its whole body.
\<close>

fun pipe :: "(nat \<Rightarrow> js_error option) \<Rightarrow> nat \<Rightarrow> ByteCountingStream \<Rightarrow> chunk list
    \<Rightarrow> js_error option \<times> ByteCountingStream" where
  "pipe werr i s [] = (werr i, s\<lparr>unread := []\<rparr>)"
| "pipe werr i s (c # cs) =
     (case werr i of
        Some e \<Rightarrow> (Some e, s\<lparr>unread := c # cs\<rparr>)
      | None \<Rightarrow> pipe werr (Suc i) (s\<lparr>bytesTransferred := bytesTransferred s + length c\<rparr>) cs)"

text \<open>What \<open>downloadAsStream\<close> resolves to.\<close>

record DownloadResult =
  statusCode :: nat
  contentLengthHeader :: nat
  dr_contentType :: "string option"
  dr_stream :: ByteCountingStream

text \<open>
  The answers of the collaborators in one run: the object store's \<open>exists\<close>, the result of
  \<open>downloadAsStream\<close> (download.ts is not among the sources; a rejection is \<open>Inl\<close>), the
  write stream's errors, \<open>setStorageClass\<close>, and the \<open>generation\<close> field that
  \<open>getMetadata\<close> returns (\<open>None\<close> when it is missing or empty). Every awaited call
  settles: it resolves or it rejects. Creating the storage client and the references to
  the bucket and the file sends no request and is taken not to throw.
\<close>

record collaborators =
  exists_response :: "js_error + bool"
  download_response :: "js_error + DownloadResult"
  writeStream_error :: "nat \<Rightarrow> js_error option"
  setStorageClass_error :: "js_error option"
  getMetadata_response :: "js_error + string option"

section \<open>upload.ts: validation and uploadStreamToGCS\<close>

definition validClasses :: "string list" where
  "validClasses = [''STANDARD'', ''NEARLINE'', ''COLDLINE'', ''ARCHIVE'']"

definition validateStorageClass :: "string option \<Rightarrow> js_error + string option" where
  "validateStorageClass storageClass =
     (case storageClass of
        None \<Rightarrow> Inr None
      | Some sc \<Rightarrow>
          if sc = [] then Inr None
          else if sc \<notin> set validClasses
          then Inl (Error (''Invalid storage class: '' @ sc @ ''. Must be one of: ''
                           @ join '', '' validClasses))
          else Inr (Some sc))"

definition validAcls :: "string list" where
  "validAcls = [''authenticatedRead'', ''bucketOwnerFullControl'', ''bucketOwnerRead'',
                ''private'', ''projectPrivate'', ''publicRead'']"

definition validatePredefinedAcl :: "string option \<Rightarrow> js_error + string option" where
  "validatePredefinedAcl acl =
     (case acl of
        None \<Rightarrow> Inr None
      | Some a \<Rightarrow>
          if a = [] then Inr None
          else if a \<notin> set validAcls
          then Inl (Error (''Invalid predefined ACL: '' @ a @ ''. Must be one of: ''
                           @ join '', '' validAcls))
          else Inr (Some a))"

record UploadOptions =
  bucket :: string
  objectName :: string
  stream :: ByteCountingStream
  contentLengthHint :: "nat option"
  contentType :: "string option"
  cacheControl :: "string option"
  metadata :: "json option"
  storageClass :: "string option"
  predefinedAcl :: "string option"

record UploadResult =
  generation :: string
  gcsUrl :: string
  objectExisted :: "bool option"

definition gsUrl :: "string \<Rightarrow> string \<Rightarrow> string" where
  "gsUrl b ob = ''gs://'' @ b @ ''/'' @ ob"

text \<open>
  The truth value of an optional string (\<open>undefined\<close> and the empty string are falsy) and
  of the optional metadata (\<open>undefined\<close> and \<open>null\<close> are falsy, an object is truthy).
\<close>

definition truthyString :: "string option \<Rightarrow> bool" where
  "truthyString s = (case s of None \<Rightarrow> False | Some v \<Rightarrow> v \<noteq> [])"

definition truthyObject :: "json option \<Rightarrow> bool" where
  "truthyObject m = (case m of None \<Rightarrow> False | Some JNull \<Rightarrow> False | Some v \<Rightarrow> True)"

definition uploadOptionsOf :: "UploadOptions \<Rightarrow> string option \<Rightarrow> CreateWriteStreamOptions" where
  "uploadOptionsOf options acl =
     \<lparr>ws_contentType = contentType options,
      ws_predefinedAcl = acl,
      ws_resumable = True,
      ws_metadata =
        (if truthyString (cacheControl options) \<or> truthyObject (metadata options)
         then Some \<lparr>fm_cacheControl = (if truthyString (cacheControl options)
                                        then cacheControl options else None),
                    fm_metadata = (if truthyObject (metadata options)
                                   then metadata options else None)\<rparr>
         else None)\<rparr>"

text \<open>
  The \<open>try\<close> block of \<open>uploadStreamToGCS\<close>: the events, the stream as the piping left
  it, and the result or the error thrown inside the block.
\<close>

definition uploadTry :: "collaborators \<Rightarrow> UploadOptions \<Rightarrow> string option \<Rightarrow> string option
    \<Rightarrow> event list \<times> ByteCountingStream \<times> (js_error + UploadResult)" where
  "uploadTry env options sc acl =
     (let t1 = [CreateWriteStream (bucket options) (objectName options) (uploadOptionsOf options acl)];
          (werr, s) = pipe (writeStream_error env) 0 (stream options) (unread (stream options))
      in case werr of
           Some e \<Rightarrow> (t1, s, Inl e)
         | None \<Rightarrow>
             (let (t2, serr) = (case sc of None \<Rightarrow> ([], None)
                                | Some c \<Rightarrow> ([SetStorageClass c], setStorageClass_error env))
              in case serr of
                   Some e \<Rightarrow> (t1 @ t2, s, Inl e)
                 | None \<Rightarrow>
                     (case getMetadata_response env of
                        Inl e \<Rightarrow> (t1 @ t2 @ [GetMetadata], s, Inl e)
                      | Inr g \<Rightarrow>
                          (t1 @ t2 @ [GetMetadata], s,
                           Inr \<lparr>generation = (case g of None \<Rightarrow> [] | Some x \<Rightarrow> x),
                                gcsUrl = gsUrl (bucket options) (objectName options),
                                objectExisted = Some False\<rparr>))))"

definition uploadStreamToGCS :: "collaborators \<Rightarrow> UploadOptions
    \<Rightarrow> event list \<times> ByteCountingStream \<times> (js_error + UploadResult)" where
  "uploadStreamToGCS env options =
     (case validateStorageClass (storageClass options) of
        Inl e \<Rightarrow> ([], stream options, Inl e)
      | Inr sc \<Rightarrow>
          (case validatePredefinedAcl (predefinedAcl options) of
             Inl e \<Rightarrow> ([], stream options, Inl e)
           | Inr acl \<Rightarrow>
               (let (t, s, r) = uploadTry env options sc acl
                in (t, s,
                    case r of
                      Inl (Error m) \<Rightarrow> Inl (Error (''Failed to upload to GCS: '' @ m))
                    | Inl NonError \<Rightarrow> Inl NonError
                    | Inr res \<Rightarrow> Inr res))))"

section \<open>index.ts: objectExists and run\<close>

text \<open>
  \<open>core.getInput\<close> of the actions toolkit: the value of the input, trimmed; with
  \<open>required: true\<close> it throws when the untrimmed value is empty. \<open>inputs\<close> gives the
  value of each input, the empty string when it is not set.
\<close>

definition getInput :: "(string \<Rightarrow> string) \<Rightarrow> string \<Rightarrow> string" where
  "getInput inputs name = trim (inputs name)"

definition getInputRequired :: "(string \<Rightarrow> string) \<Rightarrow> string \<Rightarrow> js_error + string" where
  "getInputRequired inputs name =
     (if inputs name = [] then Inl (Error (''Input required and not supplied: '' @ name))
      else Inr (trim (inputs name)))"

text \<open>
  Modelled from the spec: \<open>parseHeaders\<close> of download.ts, which is not among the sources.
  The parser is shared for headers and metadata, with a different label in the diagnostics.
\<close>

definition parseHeaders :: "(string \<Rightarrow> string + json) \<Rightarrow> string option \<Rightarrow> string list \<times> json option" where
  "parseHeaders JSON_parse headersInput = parseKeyValuePairs JSON_parse headersInput ''headers''"

definition objectExists :: "collaborators \<Rightarrow> string \<Rightarrow> string \<Rightarrow> event list \<times> (js_error + bool)" where
  "objectExists env b ob =
     ([FileExists b ob],
      case exists_response env of
        Inr exists \<Rightarrow> Inr exists
      | Inl error \<Rightarrow> Inl error)"

definition skippedOutputs :: "string \<Rightarrow> string \<Rightarrow> event list" where
  "skippedOutputs gcsBucket gcsObject =
     [SetOutput ''status-code'' ''0'',
      SetOutput ''content-length'' ''0'',
      SetOutput ''gcs-url'' (gsUrl gcsBucket gcsObject),
      SetOutput ''generation'' [],
      SetOutput ''object-existed'' ''true'']"

definition byteWarning :: "nat \<Rightarrow> nat \<Rightarrow> string" where
  "byteWarning actual header =
     ''Bytes transferred ('' @ toString actual @ '') differs from Content-Length header (''
       @ toString header @ '')''"

text \<open>
  The \<open>try\<close> block of \<open>run\<close> from the download on. The options given to
  \<open>downloadAsStream\<close> (url, method, headers, body, timeout, retry, authentication) are
  passed on unread; what the download answers is the collaborator's \<open>download_response\<close>.
\<close>

definition transfer :: "collaborators \<Rightarrow> string \<Rightarrow> string \<Rightarrow> string \<Rightarrow> string \<Rightarrow> json option
    \<Rightarrow> string \<Rightarrow> string \<Rightarrow> event list \<times> (js_error + unit)" where
  "transfer env gcsBucket gcsObject contentTypeOverride cacheControlInput metadataParsed
       storageClassInput predefinedAclInput =
     (case download_response env of
        Inl e \<Rightarrow> ([DownloadAsStream], Inl e)
      | Inr downloadResult \<Rightarrow>
          (let (t, s, r) = uploadStreamToGCS env
                 \<lparr>bucket = gcsBucket,
                  objectName = gcsObject,
                  stream = dr_stream downloadResult,
                  contentLengthHint = Some (contentLengthHeader downloadResult),
                  contentType = (if contentTypeOverride \<noteq> [] then Some contentTypeOverride
                                 else dr_contentType downloadResult),
                  cacheControl = (if cacheControlInput \<noteq> [] then Some cacheControlInput else None),
                  metadata = metadataParsed,
                  storageClass = Some storageClassInput,
                  predefinedAcl = (if predefinedAclInput \<noteq> [] then Some predefinedAclInput else None)\<rparr>
           in case r of
                Inl e \<Rightarrow> (DownloadAsStream # t, Inl e)
              | Inr uploadResult \<Rightarrow>
                  (let actualBytesTransferred = getBytesTransferred s
                   in (DownloadAsStream # t
                       @ (if contentLengthHeader downloadResult > 0
                             \<and> actualBytesTransferred \<noteq> contentLengthHeader downloadResult
                          then [Warning (byteWarning actualBytesTransferred
                                           (contentLengthHeader downloadResult))]
                          else [])
                       @ [SetOutput ''status-code'' (toString (statusCode downloadResult)),
                          SetOutput ''content-length'' (toString actualBytesTransferred),
                          SetOutput ''gcs-url'' (gcsUrl uploadResult),
                          SetOutput ''generation'' (generation uploadResult),
                          SetOutput ''object-existed'' ''false''],
                       Inr ()))))"

definition runTry :: "(string \<Rightarrow> string + json) \<Rightarrow> (string \<Rightarrow> string) \<Rightarrow> collaborators
    \<Rightarrow> event list \<times> (js_error + unit)" where
  "runTry JSON_parse inputs env =
     (case getInputRequired inputs ''url'' of
        Inl e \<Rightarrow> ([], Inl e)
      | Inr url \<Rightarrow>
     (case getInputRequired inputs ''gcs-bucket'' of
        Inl e \<Rightarrow> ([], Inl e)
      | Inr gcsBucket \<Rightarrow>
     (case getInputRequired inputs ''gcs-object'' of
        Inl e \<Rightarrow> ([], Inl e)
      | Inr gcsObject \<Rightarrow>
          (let contentTypeOverride = getInput inputs ''content-type'';
               cacheControlInput = getInput inputs ''cache-control'';
               storageClassInput = (let v = getInput inputs ''storage-class''
                                    in if v \<noteq> [] then v else ''STANDARD'');
               predefinedAclInput = getInput inputs ''predefined-acl'';
               ifNotExists = (getInput inputs ''if-not-exists'' = ''true'');
               (hw, headers) = parseHeaders JSON_parse (Some (getInput inputs ''headers''));
               (mw, metadataParsed) = parseMetadata JSON_parse (Some (getInput inputs ''metadata''));
               t0 = map Warning (hw @ mw)
           in if ifNotExists
              then (let (te, r) = objectExists env gcsBucket gcsObject
                    in case r of
                         Inl e \<Rightarrow> (t0 @ te, Inl e)
                       | Inr exists \<Rightarrow>
                           if exists then (t0 @ te @ skippedOutputs gcsBucket gcsObject, Inr ())
                           else (let (t, r') = transfer env gcsBucket gcsObject contentTypeOverride
                                                 cacheControlInput metadataParsed storageClassInput
                                                 predefinedAclInput
                                 in (t0 @ te @ t, r')))
              else (let (t, r') = transfer env gcsBucket gcsObject contentTypeOverride
                                    cacheControlInput metadataParsed storageClassInput
                                    predefinedAclInput
                    in (t0 @ t, r'))))))"

text \<open>\<open>run\<close>: the \<open>try\<close> block, and the \<open>catch\<close> that turns a thrown value into
  \<open>core.setFailed\<close>.\<close>

fun failureMessage :: "js_error \<Rightarrow> string" where
  "failureMessage (Error m) = ''Action failed: '' @ m"
| "failureMessage NonError = ''An unknown error occurred - check logs for details''"

definition run :: "(string \<Rightarrow> string + json) \<Rightarrow> (string \<Rightarrow> string) \<Rightarrow> collaborators \<Rightarrow> event list" where
  "run JSON_parse inputs env =
     (let (t, r) = runTry JSON_parse inputs env
      in case r of
           Inr u \<Rightarrow> t
         | Inl error \<Rightarrow> t @ [SetFailed (failureMessage error)])"

text \<open>The run reaches \<open>Done\<close> when the \<open>try\<close> block ends without a thrown value.\<close>

definition reachesDone :: "(string \<Rightarrow> string + json) \<Rightarrow> (string \<Rightarrow> string) \<Rightarrow> collaborators \<Rightarrow> bool" where
  "reachesDone JSON_parse inputs env = (case snd (runTry JSON_parse inputs env) of Inr u \<Rightarrow> True | Inl e \<Rightarrow> False)"

text \<open>Sample inputs and collaborators, for the examples below.\<close>

definition sampleInputs :: "(string \<times> string) list \<Rightarrow> string \<Rightarrow> string" where
  "sampleInputs extra name =
     (case map_of (extra @ [(''url'', ''https://example.com/data.json''),
                            (''gcs-bucket'', ''my-bucket''),
                            (''gcs-object'', ''data.json'')]) name of
        None \<Rightarrow> [] | Some v \<Rightarrow> v)"

text \<open>A \<open>JSON.parse\<close> for the runs whose inputs hold no JSON text: it is never called there.\<close>

definition noJSON :: "string \<Rightarrow> string + json" where
  "noJSON s = Inl ''SyntaxError''"

definition sampleDownload :: "nat \<Rightarrow> chunk list \<Rightarrow> DownloadResult" where
  "sampleDownload header chunks =
     \<lparr>statusCode = 200, contentLengthHeader = header, dr_contentType = Some ''text/plain'',
      dr_stream = newByteCountingStream chunks\<rparr>"

definition sampleEnv :: "collaborators" where
  "sampleEnv =
     \<lparr>exists_response = Inr False,
      download_response = Inr (sampleDownload 5 [[1, 2, 3], [4]]),
      writeStream_error = (\<lambda>i. None),
      setStorageClass_error = None,
      getMetadata_response = Inr (Some ''1700000000000000'')\<rparr>"

definition mismatchEnv :: "collaborators" where
  "mismatchEnv =
     sampleEnv\<lparr>download_response := Inr (sampleDownload 100 [replicate 60 0, replicate 35 0])\<rparr>"

definition updateFailsEnv :: "collaborators" where
  "updateFailsEnv = sampleEnv\<lparr>setStorageClass_error := Some (Error ''Forbidden'')\<rparr>"

text \<open>
  \<open>JSON.parse\<close> on the texts that the examples below use; the table is consulted on no
  other text.
\<close>

definition flatText :: string where
  \<open>flatText = ''{"a":"1"}''\<close>

definition nestedText :: string where
  \<open>nestedText = ''{"a":{"b":"c"}}''\<close>

definition sampleJSON :: "string \<Rightarrow> string + json" where
  "sampleJSON s =
     (if s = flatText then Inr (JObject [(''a'', JString ''1'')])
      else if s = nestedText then Inr (JObject [(''a'', JObject [(''b'', JString ''c'')])])
      else Inl ''SyntaxError: Unexpected token'')"

section \<open>Notions used in the statements\<close>

text \<open>The inputs of a run as the \<open>try\<close> block reads them.\<close>

definition requiredSupplied :: "(string \<Rightarrow> string) \<Rightarrow> bool" where
  "requiredSupplied inputs =
     (inputs ''url'' \<noteq> [] \<and> inputs ''gcs-bucket'' \<noteq> [] \<and> inputs ''gcs-object'' \<noteq> [])"

definition parseWarnings :: "(string \<Rightarrow> string + json) \<Rightarrow> (string \<Rightarrow> string) \<Rightarrow> string list" where
  "parseWarnings P inputs =
     fst (parseHeaders P (Some (getInput inputs ''headers'')))
     @ fst (parseMetadata P (Some (getInput inputs ''metadata'')))"

definition configuredStorageClass :: "(string \<Rightarrow> string) \<Rightarrow> string" where
  "configuredStorageClass inputs =
     (if getInput inputs ''storage-class'' \<noteq> [] then getInput inputs ''storage-class''
      else ''STANDARD'')"

definition configuredTransfer :: "(string \<Rightarrow> string + json) \<Rightarrow> (string \<Rightarrow> string) \<Rightarrow> collaborators
    \<Rightarrow> event list \<times> (js_error + unit)" where
  "configuredTransfer P inputs env =
     transfer env (getInput inputs ''gcs-bucket'') (getInput inputs ''gcs-object'')
       (getInput inputs ''content-type'') (getInput inputs ''cache-control'')
       (snd (parseMetadata P (Some (getInput inputs ''metadata''))))
       (configuredStorageClass inputs) (getInput inputs ''predefined-acl'')"

text \<open>The existence gate lets the run go on to the download.\<close>

definition gatePasses :: "(string \<Rightarrow> string) \<Rightarrow> collaborators \<Rightarrow> bool" where
  "gatePasses inputs env =
     (getInput inputs ''if-not-exists'' = ''true'' \<longrightarrow> exists_response env = Inr False)"

definition outputKeys :: "string list" where
  "outputKeys = [''status-code'', ''content-length'', ''gcs-url'', ''generation'', ''object-existed'']"

definition onlyStorage :: "event list \<Rightarrow> bool" where
  "onlyStorage t = (outputsOf t = [] \<and> warningsOf t = [] \<and> failuresOf t = [] \<and> fetchCalls t = 0)"

text \<open>
  A flat object in the words of the parser's description: an object, not an array, not a
  scalar, and none of its values an object or an array.
\<close>

fun isScalar :: "json \<Rightarrow> bool" where
  "isScalar (JArray xs) = False"
| "isScalar (JObject ps) = False"
| "isScalar v = True"

fun isFlatObject :: "json \<Rightarrow> bool" where
  "isFlatObject (JObject ps) = list_all (\<lambda>p. isScalar (snd p)) ps"
| "isFlatObject v = False"

text \<open>
  The pair that one segment of the semicolon format carries, if any: the segment has an
  \<open>=\<close> and a key that is not empty.
\<close>

definition segmentPair :: "string \<Rightarrow> (string \<times> string) option" where
  "segmentPair pair =
     (let trimmedPair = trim pair; separatorIndex = indexOf trimmedPair (CHR ''='')
      in if trimmedPair = [] \<or> separatorIndex = - 1 then None
         else (let key = trim (substring trimmedPair 0 (nat separatorIndex));
                   val = trim (substringFrom trimmedPair (nat (separatorIndex + 1)))
               in if key \<noteq> [] then Some (key, val) else None))"

definition segmentPairs :: "string \<Rightarrow> (string \<times> string) list" where
  "segmentPairs trimmed = List.map_filter segmentPair (splitOn (CHR '';'') trimmed)"

text \<open>The value that a returned object has at a key.\<close>

definition lookupKey :: "json option \<Rightarrow> string \<Rightarrow> json option" where
  "lookupKey r k = (case r of Some (JObject ps) \<Rightarrow> map_of ps k | _ \<Rightarrow> None)"






definition invalidClassMessage :: "string \<Rightarrow> string" where
  "invalidClassMessage sc =
     ''Action failed: Invalid storage class: '' @ sc
       @ ''. Must be one of: STANDARD, NEARLINE, COLDLINE, ARCHIVE''"

definition uploadFailure :: "js_error \<Rightarrow> js_error" where
  "uploadFailure e = (case e of Error m \<Rightarrow> Error (''Failed to upload to GCS: '' @ m)
                      | NonError \<Rightarrow> NonError)"

section \<open>The fetcher's retry policy\<close>

text \<open>
  Modelled from the spec: the retry loop of the Fetcher, download.ts, which is not among
  the sources. An attempt ends in a network error or in a response with a status code; a
  status in the 2xx range is success. Transient failures are network errors and the
  statuses 429 and 5xx. With retry enabled there are up to 3 attempts in all, and the wait
  before the next attempt doubles each time, starting from the base delay. \<open>outcomes k\<close>
  is how the \<open>k\<close>-th attempt would end.
\<close>

datatype attempt_outcome = NetworkError | HttpStatus nat

fun succeeded :: "attempt_outcome \<Rightarrow> bool" where
  "succeeded NetworkError = False"
| "succeeded (HttpStatus c) = (200 \<le> c \<and> c < 300)"

fun transient :: "attempt_outcome \<Rightarrow> bool" where
  "transient NetworkError = True"
| "transient (HttpStatus c) = (c = 429 \<or> (500 \<le> c \<and> c < 600))"

text \<open>
  Modelled from the spec: attempt \<open>k\<close> with \<open>r\<close> retries left. The result is the outcome
  of the last attempt, the number of attempts made and the waits between them. Only a
  transient failure is retried.
\<close>

fun fetchAttempt :: "(nat \<Rightarrow> attempt_outcome) \<Rightarrow> nat \<Rightarrow> nat \<Rightarrow> nat
    \<Rightarrow> attempt_outcome \<times> nat \<times> nat list" where
  "fetchAttempt outcomes baseDelay k 0 = (outcomes k, Suc k, [])"
| "fetchAttempt outcomes baseDelay k (Suc r) =
     (if succeeded (outcomes k) \<or> \<not> transient (outcomes k) then (outcomes k, Suc k, [])
      else (let (res, n, ds) = fetchAttempt outcomes baseDelay (Suc k) r
            in (res, n, baseDelay * 2 ^ k # ds)))"

text \<open>Modelled from the spec: 3 attempts in all with retry enabled, one without.\<close>

definition maxAttempts :: "bool \<Rightarrow> nat" where
  "maxAttempts retryEnabled = (if retryEnabled then 3 else 1)"

text \<open>Modelled from the spec: the fetch, from the first attempt on.\<close>

definition fetchWithRetry :: "bool \<Rightarrow> nat \<Rightarrow> (nat \<Rightarrow> attempt_outcome)
    \<Rightarrow> attempt_outcome \<times> nat \<times> nat list" where
  "fetchWithRetry retryEnabled baseDelay outcomes =
     fetchAttempt outcomes baseDelay 0 (maxAttempts retryEnabled - 1)"

text \<open>Sample sequences of outcomes.\<close>

definition twoFailuresThenSuccess :: "nat \<Rightarrow> attempt_outcome" where
  "twoFailuresThenSuccess k = (if k = 0 then NetworkError else if k = 1 then HttpStatus 503 else HttpStatus 200)"

definition alwaysUnavailable :: "nat \<Rightarrow> attempt_outcome" where
  "alwaysUnavailable k = HttpStatus (500 + k)"

definition notFound :: "nat \<Rightarrow> attempt_outcome" where
  "notFound k = HttpStatus 404"

section \<open>Reading a trace\<close>

lemma outputsOf_append: "outputsOf (a @ b) = outputsOf a @ outputsOf b"
  by (simp add: outputsOf_def)
lemma warningsOf_append: "warningsOf (a @ b) = warningsOf a @ warningsOf b"
  by (simp add: warningsOf_def)
lemma failuresOf_append: "failuresOf (a @ b) = failuresOf a @ failuresOf b"
  by (simp add: failuresOf_def)
lemma fetchCalls_append: "fetchCalls (a @ b) = fetchCalls a + fetchCalls b"
  by (simp add: fetchCalls_def)
lemma uploadCalls_append: "uploadCalls (a @ b) = uploadCalls a + uploadCalls b"
  by (simp add: uploadCalls_def)

lemma projections_Nil:
  "outputsOf [] = []" "warningsOf [] = []" "failuresOf [] = []" "fetchCalls [] = 0" "uploadCalls [] = 0"
  by (simp_all add: outputsOf_def warningsOf_def failuresOf_def fetchCalls_def uploadCalls_def)

lemma projections_Cons:
  "outputsOf (e # t) = (case e of SetOutput k v \<Rightarrow> [(k, v)] | _ \<Rightarrow> []) @ outputsOf t"
  "warningsOf (e # t) = (case e of Warning w \<Rightarrow> [w] | _ \<Rightarrow> []) @ warningsOf t"
  "failuresOf (e # t) = (case e of SetFailed m \<Rightarrow> [m] | _ \<Rightarrow> []) @ failuresOf t"
  "fetchCalls (e # t) = (if e = DownloadAsStream then 1 else 0) + fetchCalls t"
  "uploadCalls (e # t) = (if isStorageWrite e then 1 else 0) + uploadCalls t"
  by (simp_all add: outputsOf_def warningsOf_def failuresOf_def fetchCalls_def uploadCalls_def)

lemma projections_warnings:
  "outputsOf (map Warning ws) = []" "warningsOf (map Warning ws) = ws"
  "failuresOf (map Warning ws) = []" "fetchCalls (map Warning ws) = 0"
  "uploadCalls (map Warning ws) = 0"
  by (induction ws) (simp_all add: projections_Nil projections_Cons isStorageWrite_def)

lemmas projections = outputsOf_append warningsOf_append failuresOf_append fetchCalls_append
  uploadCalls_append projections_Nil projections_Cons projections_warnings

lemma pipe_counts:
  "pipe werr i s cs = (None, s') \<Longrightarrow>
     bytesTransferred s' = bytesTransferred s + sum_list (map length cs) \<and> unread s' = []"
  by (induction cs arbitrary: i s) (auto split: option.splits)

lemma uploadTry_events:
  "uploadTry env options sc acl = (t, s, r) \<Longrightarrow> onlyStorage t"
  by (auto simp: uploadTry_def onlyStorage_def Let_def projections
           split: prod.splits option.splits sum.splits)

lemma uploadStreamToGCS_events:
  "uploadStreamToGCS env options = (t, s, r) \<Longrightarrow> onlyStorage t"
  by (auto simp: uploadStreamToGCS_def onlyStorage_def projections
           split: prod.splits sum.splits dest: uploadTry_events)


section \<open>The shape of a run\<close>

lemma runTry_missing:
  "\<not> requiredSupplied inputs \<Longrightarrow> \<exists>m. runTry P inputs env = ([], Inl (Error m))"
  by (auto simp: runTry_def requiredSupplied_def getInputRequired_def)

lemma runTry_supplied:
  assumes "requiredSupplied inputs"
  shows "runTry P inputs env =
     (let b = getInput inputs ''gcs-bucket''; ob = getInput inputs ''gcs-object'';
          t0 = map Warning (parseWarnings P inputs);
          ct = configuredTransfer P inputs env
      in if getInput inputs ''if-not-exists'' = ''true''
         then (case exists_response env of
                 Inl e \<Rightarrow> (t0 @ [FileExists b ob], Inl e)
               | Inr ex \<Rightarrow> if ex then (t0 @ [FileExists b ob] @ skippedOutputs b ob, Inr ())
                           else (t0 @ [FileExists b ob] @ fst ct, snd ct))
         else (t0 @ fst ct, snd ct))"
  using assms
  by (simp add: runTry_def requiredSupplied_def getInputRequired_def getInput_def Let_def
        parseWarnings_def configuredTransfer_def configuredStorageClass_def objectExists_def
        case_prod_beta split: sum.splits)

lemma transfer_thrown:
  "transfer env b ob ct cc md sc acl = (t, Inl e) \<Longrightarrow>
     outputsOf t = [] \<and> failuresOf t = [] \<and> warningsOf t = []"
  by (auto simp: transfer_def Let_def projections onlyStorage_def
           split: sum.splits prod.splits if_splits dest!: uploadStreamToGCS_events)

lemma transfer_done:
  "transfer env b ob ct cc md sc acl = (t, Inr u) \<Longrightarrow>
     failuresOf t = [] \<and> map fst (outputsOf t) = outputKeys \<and> fetchCalls t = 1"
  by (auto simp: transfer_def Let_def projections onlyStorage_def outputKeys_def
           split: sum.splits prod.splits if_splits dest!: uploadStreamToGCS_events)

lemma skippedOutputs_projections:
  "outputsOf (skippedOutputs b ob) =
     [(''status-code'', ''0''), (''content-length'', ''0''), (''gcs-url'', gsUrl b ob),
      (''generation'', []), (''object-existed'', ''true'')]"
  "failuresOf (skippedOutputs b ob) = []" "warningsOf (skippedOutputs b ob) = []"
  "fetchCalls (skippedOutputs b ob) = 0" "uploadCalls (skippedOutputs b ob) = 0"
  by (simp_all add: skippedOutputs_def projections isStorageWrite_def)

lemma run_supplied:
  assumes "requiredSupplied inputs"
  shows "run P inputs env =
     (let b = getInput inputs ''gcs-bucket''; ob = getInput inputs ''gcs-object'';
          t0 = map Warning (parseWarnings P inputs);
          ct = configuredTransfer P inputs env;
          tt = (case snd ct of Inr u \<Rightarrow> fst ct | Inl e \<Rightarrow> fst ct @ [SetFailed (failureMessage e)])
      in if getInput inputs ''if-not-exists'' = ''true''
         then (case exists_response env of
                 Inl e \<Rightarrow> t0 @ [FileExists b ob, SetFailed (failureMessage e)]
               | Inr ex \<Rightarrow> if ex then t0 @ [FileExists b ob] @ skippedOutputs b ob
                           else t0 @ [FileExists b ob] @ tt)
         else t0 @ tt)"
  by (simp add: run_def runTry_supplied [OF assms] Let_def split: sum.splits)

lemma digitChar_inj: "a < 10 \<Longrightarrow> b < 10 \<Longrightarrow> digitChar a = digitChar b \<Longrightarrow> a = b"
proof -
  assume a: "a < 10" and b: "b < 10" and e: "digitChar a = digitChar b"
  from e have "of_char (char_of (48 + a) :: char) = (of_char (char_of (48 + b) :: char) :: nat)"
    by (simp add: digitChar_def)
  with a b show "a = b"
    by simp
qed

lemma toString_nonempty: "toString n \<noteq> []"
  by (subst toString.simps) simp

lemma toString_inj: "toString n = toString m \<Longrightarrow> n = m"
proof (induction n arbitrary: m rule: toString.induct)
  case (1 n)
  show ?case
  proof (cases "n < 10")
    case True
    then have n: "toString n = [digitChar n]"
      by (subst toString.simps) simp
    show ?thesis
    proof (cases "m < 10")
      case mt: True
      then have "toString m = [digitChar m]"
        by (subst toString.simps) simp
      with n "1.prems" True mt show ?thesis
        by (auto dest: digitChar_inj)
    next
      case False
      then have "toString m = toString (m div 10) @ [digitChar (m mod 10)]"
        by (subst toString.simps) simp
      with n "1.prems" toString_nonempty [of "m div 10"] show ?thesis
        by (cases "toString (m div 10)") auto
    qed
  next
    case False
    then have n: "toString n = toString (n div 10) @ [digitChar (n mod 10)]"
      by (subst toString.simps) simp
    show ?thesis
    proof (cases "m < 10")
      case True
      then have "toString m = [digitChar m]"
        by (subst toString.simps) simp
      with n "1.prems" toString_nonempty [of "n div 10"] show ?thesis
        by (cases "toString (n div 10)") auto
    next
      case mf: False
      then have "toString m = toString (m div 10) @ [digitChar (m mod 10)]"
        by (subst toString.simps) simp
      with n "1.prems" have eq: "toString (n div 10) = toString (m div 10)"
        and d: "digitChar (n mod 10) = digitChar (m mod 10)"
        by auto
      from "1.IH" [OF False eq] have "n div 10 = m div 10" .
      moreover from d have "n mod 10 = m mod 10"
        by (rule digitChar_inj [rotated 2]) simp_all
      ultimately show ?thesis
        by (metis div_mult_mod_eq)
    qed
  qed
qed

lemma validate_invalid:
  "sc \<noteq> [] \<Longrightarrow> sc \<notin> set validClasses \<Longrightarrow>
     validateStorageClass (Some sc) =
       Inl (Error (''Invalid storage class: '' @ sc
                   @ ''. Must be one of: STANDARD, NEARLINE, COLDLINE, ARCHIVE''))"
  by (simp add: validateStorageClass_def validClasses_def)

lemma validate_valid:
  "sc \<in> set validClasses \<Longrightarrow> validateStorageClass (Some sc) = Inr (Some sc)"
  by (auto simp: validateStorageClass_def validClasses_def)

lemma validateAcl_valid:
  "a = [] \<or> a \<in> set validAcls \<Longrightarrow>
     validatePredefinedAcl (if a \<noteq> [] then Some a else None) = Inr (if a \<noteq> [] then Some a else None)"
  by (auto simp: validatePredefinedAcl_def)

lemma configuredStorageClass_nonempty: "configuredStorageClass inputs \<noteq> []"
  by (simp add: configuredStorageClass_def)

lemma transfer_invalid_class:
  assumes "sc \<noteq> []" "sc \<notin> set validClasses"
  shows "transfer env b ob ct cc md sc acl =
           ([DownloadAsStream],
            case download_response env of
              Inl e \<Rightarrow> Inl e
            | Inr d \<Rightarrow> Inl (Error (''Invalid storage class: '' @ sc
                   @ ''. Must be one of: STANDARD, NEARLINE, COLDLINE, ARCHIVE'')))"
  by (simp add: transfer_def uploadStreamToGCS_def validate_invalid [OF assms] split: sum.splits)


lemma run_missing:
  "\<not> requiredSupplied inputs \<Longrightarrow> \<exists>m. run P inputs env = [SetFailed m]"
  using runTry_missing [of inputs P env] by (auto simp: run_def)

lemma uploadTry_finished:
  "uploadTry env options sc acl = (t, s, Inr res) \<Longrightarrow>
     pipe (writeStream_error env) 0 (stream options) (unread (stream options)) = (None, s)"
  by (auto simp: uploadTry_def Let_def split: prod.splits option.splits sum.splits)

lemma uploadStreamToGCS_finished:
  "uploadStreamToGCS env options = (t, s, Inr res) \<Longrightarrow>
     pipe (writeStream_error env) 0 (stream options) (unread (stream options)) = (None, s)"
  by (auto simp: uploadStreamToGCS_def split: prod.splits sum.splits js_error.splits
           dest: uploadTry_finished)

lemma transfer_finished:
  assumes "transfer env b ob ct cc md sc acl = (t, Inr u)"
  shows "\<exists>d s. download_response env = Inr d
           \<and> pipe (writeStream_error env) 0 (dr_stream d) (unread (dr_stream d)) = (None, s)
           \<and> map_of (outputsOf t) ''content-length'' = Some (toString (getBytesTransferred s))
           \<and> warningsOf t =
               (if contentLengthHeader d > 0 \<and> getBytesTransferred s \<noteq> contentLengthHeader d
                then [byteWarning (getBytesTransferred s) (contentLengthHeader d)] else [])"
proof -
  from assms obtain d where d: "download_response env = Inr d"
    by (auto simp: transfer_def split: sum.splits)
  let ?opts = "\<lparr>bucket = b, objectName = ob, stream = dr_stream d,
                 contentLengthHint = Some (contentLengthHeader d),
                 contentType = (if ct \<noteq> [] then Some ct else dr_contentType d),
                 cacheControl = (if cc \<noteq> [] then Some cc else None),
                 metadata = md, storageClass = Some sc,
                 predefinedAcl = (if acl \<noteq> [] then Some acl else None)\<rparr>"
  obtain tu s r where up: "uploadStreamToGCS env ?opts = (tu, s, r)"
    by (cases "uploadStreamToGCS env ?opts") auto
  from assms d up obtain res where r: "r = Inr res"
    by (cases r) (auto simp: transfer_def)
  from uploadStreamToGCS_finished [OF up [unfolded r]]
  have p: "pipe (writeStream_error env) 0 (dr_stream d) (unread (dr_stream d)) = (None, s)"
    by simp
  from uploadStreamToGCS_events [OF up] have os: "onlyStorage tu" .
  from assms d up r have t: "t = DownloadAsStream # tu
      @ (if contentLengthHeader d > 0 \<and> getBytesTransferred s \<noteq> contentLengthHeader d
         then [Warning (byteWarning (getBytesTransferred s) (contentLengthHeader d))] else [])
      @ [SetOutput ''status-code'' (toString (statusCode d)),
         SetOutput ''content-length'' (toString (getBytesTransferred s)),
         SetOutput ''gcs-url'' (gcsUrl res),
         SetOutput ''generation'' (generation res),
         SetOutput ''object-existed'' ''false'']"
    by (simp add: transfer_def Let_def)
  from os have "map_of (outputsOf t) ''content-length'' = Some (toString (getBytesTransferred s))"
    and "warningsOf t =
               (if contentLengthHeader d > 0 \<and> getBytesTransferred s \<noteq> contentLengthHeader d
                then [byteWarning (getBytesTransferred s) (contentLengthHeader d)] else [])"
    unfolding t by (simp_all add: projections onlyStorage_def)
  with d p show ?thesis
    by blast
qed


lemma reachesDone_supplied: "reachesDone P inputs env \<Longrightarrow> requiredSupplied inputs"
  using runTry_missing [of inputs P env] by (cases "requiredSupplied inputs") (auto simp: reachesDone_def)

lemma uploadTry_storage_class_error:
  assumes "fst (pipe (writeStream_error env) 0 (stream options) (unread (stream options))) = None"
      and "setStorageClass_error env = Some e"
  shows "\<exists>w. uploadTry env options (Some sc) acl =
           ([CreateWriteStream (bucket options) (objectName options) w, SetStorageClass sc],
            snd (pipe (writeStream_error env) 0 (stream options) (unread (stream options))),
            Inl e)"
  using assms by (simp add: uploadTry_def Let_def case_prod_beta)

lemma uploadStreamToGCS_storage_class_error:
  assumes "storageClass options = Some sc" "sc \<in> set validClasses"
      and "validatePredefinedAcl (predefinedAcl options) = Inr acl"
      and "fst (pipe (writeStream_error env) 0 (stream options) (unread (stream options))) = None"
      and "setStorageClass_error env = Some e"
  shows "\<exists>w s. uploadStreamToGCS env options =
           ([CreateWriteStream (bucket options) (objectName options) w, SetStorageClass sc], s,
            Inl (uploadFailure e))"
proof -
  from uploadTry_storage_class_error [OF assms(4,5), of sc acl]
  obtain w where "uploadTry env options (Some sc) acl =
           ([CreateWriteStream (bucket options) (objectName options) w, SetStorageClass sc],
            snd (pipe (writeStream_error env) 0 (stream options) (unread (stream options))),
            Inl e)"
    by blast
  then show ?thesis
    by (cases e)
       (simp_all add: uploadStreamToGCS_def assms(1,3) validate_valid [OF assms(2)] uploadFailure_def)
qed

lemma validateAcl_input:
  "a = [] \<or> a \<in> set validAcls \<Longrightarrow>
     \<exists>acl. validatePredefinedAcl (if a \<noteq> [] then Some a else None) = Inr acl"
  by (auto simp: validatePredefinedAcl_def)

lemma transfer_storage_class_error:
  assumes "download_response env = Inr d"
      and "sc \<in> set validClasses"
      and "acl = [] \<or> acl \<in> set validAcls"
      and "fst (pipe (writeStream_error env) 0 (dr_stream d) (unread (dr_stream d))) = None"
      and "setStorageClass_error env = Some e"
  shows "\<exists>w. transfer env b ob ct cc md sc acl =
           ([DownloadAsStream, CreateWriteStream b ob w, SetStorageClass sc],
            Inl (uploadFailure e))"
proof -
  let ?opts = "\<lparr>bucket = b, objectName = ob, stream = dr_stream d,
                 contentLengthHint = Some (contentLengthHeader d),
                 contentType = (if ct \<noteq> [] then Some ct else dr_contentType d),
                 cacheControl = (if cc \<noteq> [] then Some cc else None),
                 metadata = md, storageClass = Some sc,
                 predefinedAcl = (if acl \<noteq> [] then Some acl else None)\<rparr>"
  from validateAcl_input [OF assms(3)] obtain a where
    a: "validatePredefinedAcl (predefinedAcl ?opts) = Inr a"
    by auto
  have p: "fst (pipe (writeStream_error env) 0 (stream ?opts) (unread (stream ?opts))) = None"
    using assms(4) by simp
  have sc: "storageClass ?opts = Some sc"
    by simp
  from uploadStreamToGCS_storage_class_error [OF sc assms(2) a p assms(5)]
  obtain w s where "uploadStreamToGCS env ?opts =
      ([CreateWriteStream b ob w, SetStorageClass sc], s, Inl (uploadFailure e))"
    by auto
  then show ?thesis
    by (simp add: transfer_def assms(1))
qed

lemmas string_ops = trim_def isWhiteSpace_def substring_def substringFrom_def assignProperty_def

lemma fetchWithRetry_enabled:
  "fetchWithRetry True base outcomes =
     (if succeeded (outcomes 0) \<or> \<not> transient (outcomes 0) then (outcomes 0, 1, [])
      else if succeeded (outcomes 1) \<or> \<not> transient (outcomes 1) then (outcomes 1, 2, [base])
      else (outcomes 2, 3, [base, base * 2]))"
  by (simp add: fetchWithRetry_def maxAttempts_def numeral_2_eq_2)

section \<open>The semicolon format\<close>

text \<open>
  The loop stores the pairs of the segments in order. For every key other than
  \<open>__proto__\<close> the value of the last segment with that key is the one returned, and the
  returned object has each key once.
\<close>

lemma map_of_updateProperty: "map_of (updateProperty k v ps) = (map_of ps)(k \<mapsto> v)"
  by (induction ps) auto

lemma keys_updateProperty: "set (map fst (updateProperty k v ps)) = insert k (set (map fst ps))"
  by (induction ps) auto

lemma distinct_updateProperty:
  "distinct (map fst ps) \<Longrightarrow> distinct (map fst (updateProperty k v ps))"
proof (induction ps)
  case Nil
  then show ?case by simp
next
  case (Cons p ps)
  then show ?case
    using keys_updateProperty [of k v ps] by (auto simp del: set_map)
qed

lemma distinct_assignProperty:
  "distinct (map fst ps) \<Longrightarrow> distinct (map fst (assignProperty ps k v))"
  by (simp add: assignProperty_def distinct_updateProperty)

lemma parsePairs_result:
  "snd (parsePairs name pairs (ws, result)) =
     fold (\<lambda>p r. assignProperty r (fst p) (snd p)) (List.map_filter segmentPair pairs) result"
  by (induction pairs arbitrary: ws result)
     (simp_all add: Let_def segmentPair_def)

lemma fold_assign_distinct:
  "distinct (map fst result) \<Longrightarrow>
     distinct (map fst (fold (\<lambda>p r. assignProperty r (fst p) (snd p)) ps result))"
  by (induction ps arbitrary: result) (simp_all add: distinct_assignProperty)

lemma map_of_assignProperty:
  "k \<noteq> ''__proto__'' \<Longrightarrow>
     map_of (assignProperty r a b) k = (if a = k then Some b else map_of r k)"
  by (simp add: assignProperty_def map_of_updateProperty)

lemma fold_assign_lookup:
  "k \<noteq> ''__proto__'' \<Longrightarrow>
     map_of (fold (\<lambda>p r. assignProperty r (fst p) (snd p)) ps result) k =
       (case map_of (rev ps) k of Some v \<Rightarrow> Some v | None \<Rightarrow> map_of result k)"
proof (induction ps arbitrary: result)
  case Nil
  then show ?case by simp
next
  case (Cons p ps)
  have "map_of (fold (\<lambda>p r. assignProperty r (fst p) (snd p)) (p # ps) result) k =
          (case map_of (rev ps) k of Some v \<Rightarrow> Some v
           | None \<Rightarrow> map_of (assignProperty result (fst p) (snd p)) k)"
    using Cons.IH [OF Cons.prems, of "assignProperty result (fst p) (snd p)"] by simp
  also have "\<dots> = (case map_of (rev (p # ps)) k of Some v \<Rightarrow> Some v | None \<Rightarrow> map_of result k)"
    by (cases p) (simp add: map_of_assignProperty [OF Cons.prems] map_add_def split: option.splits)
  finally show ?case .
qed

lemma parseSemicolon_last_wins:
  assumes "k \<noteq> ''__proto__''"
  shows "lookupKey (snd (parseSemicolon trimmed name)) k =
           map_option JString (map_of (rev (segmentPairs trimmed)) k)"
proof -
  obtain ws result where pr: "parsePairs name (splitOn (CHR '';'') trimmed) ([], []) = (ws, result)"
    by (cases "parsePairs name (splitOn (CHR '';'') trimmed) ([], [])")
  from parsePairs_result [of name "splitOn (CHR '';'') trimmed" "[]" "[]"] pr
  have r: "result = fold (\<lambda>p r. assignProperty r (fst p) (snd p)) (segmentPairs trimmed) []"
    by (simp add: segmentPairs_def)
  have m: "map_of result k = map_of (rev (segmentPairs trimmed)) k"
    unfolding r using fold_assign_lookup [OF assms, of "segmentPairs trimmed" "[]"]
    by (simp split: option.splits)
  have j: "map_of (map (\<lambda>(k, v). (k, JString v)) result) k = map_option JString (map_of result k)"
    by (simp add: map_of_map)
  show ?thesis
    using m j by (cases result) (simp_all add: parseSemicolon_def pr lookupKey_def)
qed

lemma parseSemicolon_keys_distinct:
  assumes "snd (parseSemicolon trimmed name) = Some (JObject ps)"
  shows "distinct (map fst ps)"
proof -
  obtain ws result where pr: "parsePairs name (splitOn (CHR '';'') trimmed) ([], []) = (ws, result)"
    by (cases "parsePairs name (splitOn (CHR '';'') trimmed) ([], [])")
  from parsePairs_result [of name "splitOn (CHR '';'') trimmed" "[]" "[]"] pr
  have "result = fold (\<lambda>p r. assignProperty r (fst p) (snd p)) (segmentPairs trimmed) []"
    by (simp add: segmentPairs_def)
  then have d: "distinct (map fst result)"
    using fold_assign_distinct [of "[]" "segmentPairs trimmed"] by simp
  from assms pr have "ps = map (\<lambda>(k, v). (k, JString v)) result"
    by (auto simp: parseSemicolon_def split: if_splits)
  with d show ?thesis
    by (simp add: comp_def case_prod_beta)
qed






















section \<open>Outputs are set only in Done\<close>

text \<open>
  Claim C4. The success outputs (status-code, content-length, gcs-url, generation,
  object-existed) are set only when the run reaches Done: a run that reaches Done sets
  exactly these five and signals no failure; a run that does not, whatever the stage that
  failed, sets no output at all, so no generation either, and signals one failure.
\<close>

theorem outputs_only_in_done:
  "(reachesDone P inputs env \<longrightarrow>
      failuresOf (run P inputs env) = [] \<and> map fst (outputsOf (run P inputs env)) = outputKeys)
   \<and> (\<not> reachesDone P inputs env \<longrightarrow>
      outputsOf (run P inputs env) = [] \<and> length (failuresOf (run P inputs env)) = 1)"
proof (cases "requiredSupplied inputs")
  case False
  then obtain m where "runTry P inputs env = ([], Inl (Error m))"
    using runTry_missing by blast
  then show ?thesis
    by (simp add: run_def reachesDone_def projections)
next
  case True
  obtain t r where ct: "configuredTransfer P inputs env = (t, r)"
    by (cases "configuredTransfer P inputs env")
  have thrown: "outputsOf t = [] \<and> failuresOf t = []" if "r = Inl e" for e
    using ct that transfer_thrown unfolding configuredTransfer_def by blast
  have finished: "failuresOf t = [] \<and> map fst (outputsOf t) = outputKeys" if "r = Inr u" for u
    using ct that transfer_done unfolding configuredTransfer_def by blast
  show ?thesis
  proof (cases r)
    case (Inl e)
    with thrown [OF Inl] ct show ?thesis
      by (auto simp: run_def reachesDone_def runTry_supplied [OF True] Let_def projections
            skippedOutputs_projections outputKeys_def split: sum.splits)
  next
    case (Inr u)
    with finished [OF Inr] ct show ?thesis
      by (auto simp: run_def reachesDone_def runTry_supplied [OF True] Let_def projections
            skippedOutputs_projections outputKeys_def split: sum.splits)
  qed
qed


theorem outputs_only_in_done_witness:
  "reachesDone noJSON (sampleInputs []) sampleEnv
   \<and> failuresOf (run noJSON (sampleInputs []) sampleEnv) = []
   \<and> map fst (outputsOf (run noJSON (sampleInputs []) sampleEnv)) = outputKeys
   \<and> \<not> reachesDone noJSON (sampleInputs [(''storage-class'', ''FOO'')]) sampleEnv
   \<and> outputsOf (run noJSON (sampleInputs [(''storage-class'', ''FOO'')]) sampleEnv) = []
   \<and> length (failuresOf (run noJSON (sampleInputs [(''storage-class'', ''FOO'')]) sampleEnv)) = 1"
proof -
  have a: "reachesDone noJSON (sampleInputs []) sampleEnv"
    by code_simp
  have b: "\<not> reachesDone noJSON (sampleInputs [(''storage-class'', ''FOO'')]) sampleEnv"
    by code_simp
  show ?thesis
    using a b outputs_only_in_done [of noJSON "sampleInputs []" sampleEnv]
      outputs_only_in_done [of noJSON "sampleInputs [(''storage-class'', ''FOO'')]" sampleEnv]
    by blast
qed

section \<open>The existence gate\<close>

text \<open>
  Claim C2. When if-not-exists is enabled and the destination object exists (the required
  inputs being supplied), the run makes no fetch call and no upload call, so reads no byte
  of the remote URL, ends in Done without a failure, and its outputs are status-code "0",
  content-length "0", the gs:// URL, an empty generation and object-existed "true".
\<close>

theorem skip_when_object_exists:
  assumes "requiredSupplied inputs"
      and "getInput inputs ''if-not-exists'' = ''true''"
      and "exists_response env = Inr True"
  shows "fetchCalls (run P inputs env) = 0
       \<and> uploadCalls (run P inputs env) = 0
       \<and> failuresOf (run P inputs env) = []
       \<and> reachesDone P inputs env
       \<and> outputsOf (run P inputs env) =
           [(''status-code'', ''0''), (''content-length'', ''0''),
            (''gcs-url'', gsUrl (getInput inputs ''gcs-bucket'') (getInput inputs ''gcs-object'')),
            (''generation'', []), (''object-existed'', ''true'')]"
  using assms(2,3)
  by (simp add: run_supplied [OF assms(1)] reachesDone_def runTry_supplied [OF assms(1)]
        Let_def projections skippedOutputs_projections isStorageWrite_def)


theorem skip_when_object_exists_witness:
  "requiredSupplied (sampleInputs [(''if-not-exists'', ''true'')])
   \<and> getInput (sampleInputs [(''if-not-exists'', ''true'')]) ''if-not-exists'' = ''true''
   \<and> exists_response (sampleEnv\<lparr>exists_response := Inr True\<rparr>) = Inr True
   \<and> fetchCalls (run noJSON (sampleInputs [(''if-not-exists'', ''true'')])
        (sampleEnv\<lparr>exists_response := Inr True\<rparr>)) = 0
   \<and> outputsOf (run noJSON (sampleInputs [(''if-not-exists'', ''true'')])
        (sampleEnv\<lparr>exists_response := Inr True\<rparr>)) =
        [(''status-code'', ''0''), (''content-length'', ''0''),
         (''gcs-url'', ''gs://my-bucket/data.json''),
         (''generation'', []), (''object-existed'', ''true'')]"
proof -
  have a: "requiredSupplied (sampleInputs [(''if-not-exists'', ''true'')])"
    by code_simp
  have b: "getInput (sampleInputs [(''if-not-exists'', ''true'')]) ''if-not-exists'' = ''true''"
    by code_simp
  have c: "exists_response (sampleEnv\<lparr>exists_response := Inr True\<rparr>) = Inr True"
    by simp
  have d: "gsUrl (getInput (sampleInputs [(''if-not-exists'', ''true'')]) ''gcs-bucket'')
             (getInput (sampleInputs [(''if-not-exists'', ''true'')]) ''gcs-object'')
           = ''gs://my-bucket/data.json''"
    by code_simp
  show ?thesis
    using skip_when_object_exists [OF a b c, of noJSON] a b c d
    by simp
qed

text \<open>
  Claim C6. \<open>objectExists\<close> returns the boolean of the query when the query succeeds; when
  the query fails, \<open>objectExists\<close> fails with that same error and returns no boolean, so the
  failure is never taken for "does not exist": a gated run then makes no fetch and no upload
  call, sets no output and signals the failure.
\<close>

theorem objectExists_never_false_on_error:
  "(exists_response env = Inr b \<longrightarrow> snd (objectExists env bk ob) = Inr b)
   \<and> (exists_response env = Inl e \<longrightarrow>
        snd (objectExists env bk ob) = Inl e
        \<and> (requiredSupplied inputs \<and> getInput inputs ''if-not-exists'' = ''true'' \<longrightarrow>
             fetchCalls (run P inputs env) = 0 \<and> uploadCalls (run P inputs env) = 0
             \<and> outputsOf (run P inputs env) = []
             \<and> failuresOf (run P inputs env) = [failureMessage e]))"
proof -
  have "fetchCalls (run P inputs env) = 0 \<and> uploadCalls (run P inputs env) = 0
        \<and> outputsOf (run P inputs env) = []
        \<and> failuresOf (run P inputs env) = [failureMessage e]"
    if "exists_response env = Inl e" "requiredSupplied inputs"
       "getInput inputs ''if-not-exists'' = ''true''"
    using that(1,3) by (simp add: run_supplied [OF that(2)] Let_def projections isStorageWrite_def)
  then show ?thesis
    by (simp add: objectExists_def)
qed



theorem objectExists_never_false_on_error_witness:
  "exists_response (sampleEnv\<lparr>exists_response := Inl (Error ''403 Forbidden'')\<rparr>)
     = Inl (Error ''403 Forbidden'')
   \<and> requiredSupplied (sampleInputs [(''if-not-exists'', ''true'')])
   \<and> getInput (sampleInputs [(''if-not-exists'', ''true'')]) ''if-not-exists'' = ''true''
   \<and> snd (objectExists (sampleEnv\<lparr>exists_response := Inl (Error ''403 Forbidden'')\<rparr>)
        ''my-bucket'' ''data.json'') = Inl (Error ''403 Forbidden'')
   \<and> fetchCalls (run noJSON (sampleInputs [(''if-not-exists'', ''true'')])
        (sampleEnv\<lparr>exists_response := Inl (Error ''403 Forbidden'')\<rparr>)) = 0
   \<and> failuresOf (run noJSON (sampleInputs [(''if-not-exists'', ''true'')])
        (sampleEnv\<lparr>exists_response := Inl (Error ''403 Forbidden'')\<rparr>))
       = [''Action failed: 403 Forbidden'']
   \<and> exists_response sampleEnv = Inr False
   \<and> snd (objectExists sampleEnv ''my-bucket'' ''data.json'') = Inr False"
proof -
  have a: "requiredSupplied (sampleInputs [(''if-not-exists'', ''true'')])"
    by code_simp
  have b: "getInput (sampleInputs [(''if-not-exists'', ''true'')]) ''if-not-exists'' = ''true''"
    by code_simp
  have c: "exists_response (sampleEnv\<lparr>exists_response := Inl (Error ''403 Forbidden'')\<rparr>)
             = Inl (Error ''403 Forbidden'')"
    by simp
  have d: "exists_response sampleEnv = Inr False"
    by (simp add: sampleEnv_def)
  show ?thesis
    using a b c d
      objectExists_never_false_on_error
        [of "sampleEnv\<lparr>exists_response := Inl (Error ''403 Forbidden'')\<rparr>" True
            "''my-bucket''" "''data.json''" "Error ''403 Forbidden''"
            "sampleInputs [(''if-not-exists'', ''true'')]" noJSON]
      objectExists_never_false_on_error
        [of sampleEnv False "''my-bucket''" "''data.json''" NonError
            "sampleInputs []" noJSON]
    by simp
qed

section \<open>Validation of the storage class\<close>

text \<open>
  Claim C3, as the program has it. A run configured with a storage class outside STANDARD,
  NEARLINE, COLDLINE, ARCHIVE never makes an upload call to the object store. The check is
  the uploader's: when the required inputs are supplied, the existence gate lets the run
  pass and the download succeeds, that one fetch call has been made, and the run then fails
  with the error "Invalid storage class: ..." and sets no output.
\<close>

theorem invalid_storage_class_rejected_by_uploader:
  assumes "configuredStorageClass inputs \<notin> set validClasses"
  shows "uploadCalls (run P inputs env) = 0
       \<and> (requiredSupplied inputs \<and> gatePasses inputs env \<and> download_response env = Inr d \<longrightarrow>
            fetchCalls (run P inputs env) = 1
            \<and> outputsOf (run P inputs env) = []
            \<and> failuresOf (run P inputs env) = [invalidClassMessage (configuredStorageClass inputs)])"
proof (cases "requiredSupplied inputs")
  case False
  then obtain m where "run P inputs env = [SetFailed m]"
    using run_missing by blast
  with False show ?thesis
    by (simp add: projections isStorageWrite_def)
next
  case True
  have ct: "configuredTransfer P inputs env =
              ([DownloadAsStream],
               case download_response env of
                 Inl e \<Rightarrow> Inl e
               | Inr d \<Rightarrow> Inl (Error (''Invalid storage class: '' @ configuredStorageClass inputs
                      @ ''. Must be one of: STANDARD, NEARLINE, COLDLINE, ARCHIVE'')))"
    unfolding configuredTransfer_def
    by (rule transfer_invalid_class [OF configuredStorageClass_nonempty assms])
  show ?thesis
    by (auto simp: run_supplied [OF True] ct Let_def projections isStorageWrite_def
          skippedOutputs_projections gatePasses_def invalidClassMessage_def
          split: sum.splits)
qed


theorem invalid_storage_class_rejected_by_uploader_witness:
  "configuredStorageClass (sampleInputs [(''storage-class'', ''FOO'')]) \<notin> set validClasses
   \<and> requiredSupplied (sampleInputs [(''storage-class'', ''FOO'')])
   \<and> gatePasses (sampleInputs [(''storage-class'', ''FOO'')]) sampleEnv
   \<and> download_response sampleEnv = Inr (sampleDownload 5 [[1, 2, 3], [4]])
   \<and> uploadCalls (run noJSON (sampleInputs [(''storage-class'', ''FOO'')]) sampleEnv) = 0
   \<and> fetchCalls (run noJSON (sampleInputs [(''storage-class'', ''FOO'')]) sampleEnv) = 1
   \<and> failuresOf (run noJSON (sampleInputs [(''storage-class'', ''FOO'')]) sampleEnv) =
       [''Action failed: Invalid storage class: FOO. Must be one of: STANDARD, NEARLINE, COLDLINE, ARCHIVE'']"
proof -
  have a: "configuredStorageClass (sampleInputs [(''storage-class'', ''FOO'')]) \<notin> set validClasses"
    by code_simp
  have b: "requiredSupplied (sampleInputs [(''storage-class'', ''FOO'')])"
    by code_simp
  have c: "gatePasses (sampleInputs [(''storage-class'', ''FOO'')]) sampleEnv"
    by code_simp
  have d: "download_response sampleEnv = Inr (sampleDownload 5 [[1, 2, 3], [4]])"
    by (simp add: sampleEnv_def)
  have e: "invalidClassMessage (configuredStorageClass (sampleInputs [(''storage-class'', ''FOO'')]))
           = ''Action failed: Invalid storage class: FOO. Must be one of: STANDARD, NEARLINE, COLDLINE, ARCHIVE''"
    by code_simp
  show ?thesis
    using a b c d e
      invalid_storage_class_rejected_by_uploader
        [OF a, of noJSON sampleEnv "sampleDownload 5 [[1, 2, 3], [4]]"]
    by simp
qed

text \<open>
  Claim C3 as stated fails: with the storage class FOO the download is called once before
  the validation rejects the value.
\<close>

theorem invalid_storage_class_counterexample:
  "configuredStorageClass (sampleInputs [(''storage-class'', ''FOO'')]) \<notin> set validClasses
   \<and> fetchCalls (run noJSON (sampleInputs [(''storage-class'', ''FOO'')]) sampleEnv) = 1"
  by code_simp

section \<open>Reconciling the byte count\<close>

text \<open>
  A run whose collaborators all succeed reaches Done, whatever the declared length is; and a
  run that reached Done after a download reports the count of the stream.
\<close>

lemma uploadTry_succeeds:
  assumes "fst (pipe (writeStream_error env) 0 (stream options) (unread (stream options))) = None"
      and "setStorageClass_error env = None"
      and "getMetadata_response env = Inr g"
  shows "\<exists>t res. uploadTry env options sc acl =
           (t, snd (pipe (writeStream_error env) 0 (stream options) (unread (stream options))),
            Inr res)"
  using assms by (cases sc) (simp_all add: uploadTry_def Let_def case_prod_beta)

lemma uploadStreamToGCS_succeeds:
  assumes "storageClass options = Some sc" "sc \<in> set validClasses"
      and "validatePredefinedAcl (predefinedAcl options) = Inr acl"
      and "fst (pipe (writeStream_error env) 0 (stream options) (unread (stream options))) = None"
      and "setStorageClass_error env = None"
      and "getMetadata_response env = Inr g"
  shows "\<exists>t s res. uploadStreamToGCS env options = (t, s, Inr res)"
proof -
  from uploadTry_succeeds [OF assms(4,5,6), of "Some sc" acl]
  obtain t res where "uploadTry env options (Some sc) acl =
           (t, snd (pipe (writeStream_error env) 0 (stream options) (unread (stream options))),
            Inr res)"
    by blast
  then show ?thesis
    by (simp add: uploadStreamToGCS_def assms(1,3) validate_valid [OF assms(2)])
qed

lemma transfer_succeeds:
  assumes "download_response env = Inr d"
      and "sc \<in> set validClasses"
      and "acl = [] \<or> acl \<in> set validAcls"
      and "fst (pipe (writeStream_error env) 0 (dr_stream d) (unread (dr_stream d))) = None"
      and "setStorageClass_error env = None"
      and "getMetadata_response env = Inr g"
  shows "\<exists>t. transfer env b ob ct cc md sc acl = (t, Inr ())"
proof -
  let ?opts = "\<lparr>bucket = b, objectName = ob, stream = dr_stream d,
                 contentLengthHint = Some (contentLengthHeader d),
                 contentType = (if ct \<noteq> [] then Some ct else dr_contentType d),
                 cacheControl = (if cc \<noteq> [] then Some cc else None),
                 metadata = md, storageClass = Some sc,
                 predefinedAcl = (if acl \<noteq> [] then Some acl else None)\<rparr>"
  from validateAcl_input [OF assms(3)] obtain a where
    a: "validatePredefinedAcl (predefinedAcl ?opts) = Inr a"
    by auto
  have p: "fst (pipe (writeStream_error env) 0 (stream ?opts) (unread (stream ?opts))) = None"
    using assms(4) by simp
  have sc: "storageClass ?opts = Some sc"
    by simp
  from uploadStreamToGCS_succeeds [OF sc assms(2) a p assms(5,6)]
  obtain t s res where "uploadStreamToGCS env ?opts = (t, s, Inr res)"
    by blast
  then show ?thesis
    by (simp add: transfer_def assms(1) Let_def)
qed

lemma run_succeeds:
  assumes "requiredSupplied inputs"
      and "gatePasses inputs env"
      and "download_response env = Inr d"
      and "configuredStorageClass inputs \<in> set validClasses"
      and "getInput inputs ''predefined-acl'' = [] \<or> getInput inputs ''predefined-acl'' \<in> set validAcls"
      and "fst (pipe (writeStream_error env) 0 (dr_stream d) (unread (dr_stream d))) = None"
      and "setStorageClass_error env = None"
      and "getMetadata_response env = Inr g"
  shows "reachesDone P inputs env \<and> fetchCalls (run P inputs env) > 0"
proof -
  from transfer_succeeds [OF assms(3,4,5,6,7,8)]
  obtain t where ct: "configuredTransfer P inputs env = (t, Inr ())"
    unfolding configuredTransfer_def by blast
  then have "fetchCalls t = 1"
    using transfer_done unfolding configuredTransfer_def by blast
  then show ?thesis
    using assms(2) ct
    by (auto simp: run_supplied [OF assms(1)] runTry_supplied [OF assms(1)] reachesDone_def
          Let_def projections gatePasses_def)
qed

lemma done_transfer_counts:
  assumes "reachesDone P inputs env"
      and "fetchCalls (run P inputs env) > 0"
      and "download_response env = Inr d"
      and "dr_stream d = newByteCountingStream chunks"
  shows "map_of (outputsOf (run P inputs env)) ''content-length''
           = Some (toString (sum_list (map length chunks)))
       \<and> failuresOf (run P inputs env) = []
       \<and> (contentLengthHeader d > 0 \<and> sum_list (map length chunks) \<noteq> contentLengthHeader d \<longrightarrow>
            byteWarning (sum_list (map length chunks)) (contentLengthHeader d)
              \<in> set (warningsOf (run P inputs env))
            \<and> map_of (outputsOf (run P inputs env)) ''content-length''
                \<noteq> Some (toString (contentLengthHeader d)))"
proof -
  have sup: "requiredSupplied inputs"
    using assms(1) by (rule reachesDone_supplied)
  obtain t r where ct: "configuredTransfer P inputs env = (t, r)"
    by (cases "configuredTransfer P inputs env")
  have pass: "gatePasses inputs env"
    using assms(2)
    by (auto simp: run_supplied [OF sup] Let_def projections skippedOutputs_projections
          gatePasses_def split: sum.splits if_splits)
  have r: "r = Inr ()"
    using assms(1) pass ct
    by (cases r) (auto simp: reachesDone_def runTry_supplied [OF sup] Let_def gatePasses_def
          split: if_splits)
  have outs: "outputsOf (run P inputs env) = outputsOf t"
    and warns: "warningsOf (run P inputs env) = parseWarnings P inputs @ warningsOf t"
    and fails: "failuresOf (run P inputs env) = failuresOf t"
    using pass ct r
    by (auto simp: run_supplied [OF sup] Let_def projections gatePasses_def)
  from ct r have tr: "transfer env (getInput inputs ''gcs-bucket'') (getInput inputs ''gcs-object'')
       (getInput inputs ''content-type'') (getInput inputs ''cache-control'')
       (snd (parseMetadata P (Some (getInput inputs ''metadata''))))
       (configuredStorageClass inputs) (getInput inputs ''predefined-acl'') = (t, Inr ())"
    by (simp add: configuredTransfer_def)
  from transfer_finished [OF tr] assms(3) obtain s where
    p: "pipe (writeStream_error env) 0 (dr_stream d) (unread (dr_stream d)) = (None, s)"
    and o: "map_of (outputsOf t) ''content-length'' = Some (toString (getBytesTransferred s))"
    and w: "warningsOf t =
               (if contentLengthHeader d > 0 \<and> getBytesTransferred s \<noteq> contentLengthHeader d
                then [byteWarning (getBytesTransferred s) (contentLengthHeader d)] else [])"
    by auto
  from pipe_counts [OF p] assms(4)
  have n: "getBytesTransferred s = sum_list (map length chunks)"
    by (simp add: getBytesTransferred_def newByteCountingStream_def)
  from transfer_done [OF tr] have f: "failuresOf t = []"
    by simp
  show ?thesis
    using o w n f toString_inj [of "sum_list (map length chunks)" "contentLengthHeader d"]
    by (auto simp: outs warns fails)
qed


text \<open>
  Claim C1. Take a download that resolves with a fresh counting stream. When the required
  inputs are supplied, the existence gate lets the run pass, the storage class and the ACL
  are valid, the streamed write finishes, and the storage-class update and the metadata
  read succeed, the transfer succeeds whatever the declared Content-Length says: the run
  reaches Done and signals no failure. In every successful transfer the content-length
  output is the number of bytes read from the downloaded stream, the final count of the
  byte-counting stream, which is the total length of its chunks. When the declared
  Content-Length is positive and differs from the count, the warning is recorded, and the
  output is the count and not the declared value.
\<close>

theorem content_length_is_counted_bytes:
  assumes "download_response env = Inr d"
      and "dr_stream d = newByteCountingStream chunks"
  shows "(requiredSupplied inputs \<and> gatePasses inputs env
          \<and> configuredStorageClass inputs \<in> set validClasses
          \<and> (getInput inputs ''predefined-acl'' = []
               \<or> getInput inputs ''predefined-acl'' \<in> set validAcls)
          \<and> fst (pipe (writeStream_error env) 0 (dr_stream d) (unread (dr_stream d))) = None
          \<and> setStorageClass_error env = None
          \<and> getMetadata_response env = Inr g \<longrightarrow>
            reachesDone P inputs env
            \<and> fetchCalls (run P inputs env) > 0
            \<and> failuresOf (run P inputs env) = []
            \<and> map_of (outputsOf (run P inputs env)) ''content-length''
                 = Some (toString (sum_list (map length chunks))))
       \<and> (reachesDone P inputs env \<and> fetchCalls (run P inputs env) > 0 \<longrightarrow>
            map_of (outputsOf (run P inputs env)) ''content-length''
              = Some (toString (sum_list (map length chunks)))
            \<and> failuresOf (run P inputs env) = []
            \<and> (contentLengthHeader d > 0 \<and> sum_list (map length chunks) \<noteq> contentLengthHeader d \<longrightarrow>
                 byteWarning (sum_list (map length chunks)) (contentLengthHeader d)
                   \<in> set (warningsOf (run P inputs env))
                 \<and> map_of (outputsOf (run P inputs env)) ''content-length''
                     \<noteq> Some (toString (contentLengthHeader d))))"
proof -
  have counted: "map_of (outputsOf (run P inputs env)) ''content-length''
              = Some (toString (sum_list (map length chunks)))
            \<and> failuresOf (run P inputs env) = []
            \<and> (contentLengthHeader d > 0 \<and> sum_list (map length chunks) \<noteq> contentLengthHeader d \<longrightarrow>
                 byteWarning (sum_list (map length chunks)) (contentLengthHeader d)
                   \<in> set (warningsOf (run P inputs env))
                 \<and> map_of (outputsOf (run P inputs env)) ''content-length''
                     \<noteq> Some (toString (contentLengthHeader d)))"
    if "reachesDone P inputs env" "fetchCalls (run P inputs env) > 0"
    using that assms by (rule done_transfer_counts)
  have succeeds: "reachesDone P inputs env \<and> fetchCalls (run P inputs env) > 0"
    if "requiredSupplied inputs" "gatePasses inputs env"
       "configuredStorageClass inputs \<in> set validClasses"
       "getInput inputs ''predefined-acl'' = [] \<or> getInput inputs ''predefined-acl'' \<in> set validAcls"
       "fst (pipe (writeStream_error env) 0 (dr_stream d) (unread (dr_stream d))) = None"
       "setStorageClass_error env = None"
       "getMetadata_response env = Inr g"
    using that(1,2) assms(1) that(3-7) by (rule run_succeeds)
  show ?thesis
  proof (intro conjI impI)
    assume h: "requiredSupplied inputs \<and> gatePasses inputs env
          \<and> configuredStorageClass inputs \<in> set validClasses
          \<and> (getInput inputs ''predefined-acl'' = []
               \<or> getInput inputs ''predefined-acl'' \<in> set validAcls)
          \<and> fst (pipe (writeStream_error env) 0 (dr_stream d) (unread (dr_stream d))) = None
          \<and> setStorageClass_error env = None
          \<and> getMetadata_response env = Inr g"
    then have sd: "reachesDone P inputs env \<and> fetchCalls (run P inputs env) > 0"
      by (intro succeeds) simp_all
    from sd show "reachesDone P inputs env" and "fetchCalls (run P inputs env) > 0"
      by simp_all
    from sd counted show "failuresOf (run P inputs env) = []"
      and "map_of (outputsOf (run P inputs env)) ''content-length''
                 = Some (toString (sum_list (map length chunks)))"
      by simp_all
  next
    assume sd: "reachesDone P inputs env \<and> fetchCalls (run P inputs env) > 0"
    with counted show "map_of (outputsOf (run P inputs env)) ''content-length''
              = Some (toString (sum_list (map length chunks)))"
      and "failuresOf (run P inputs env) = []"
      by simp_all
  next
    assume sd: "reachesDone P inputs env \<and> fetchCalls (run P inputs env) > 0"
      and m: "contentLengthHeader d > 0 \<and> sum_list (map length chunks) \<noteq> contentLengthHeader d"
    with counted show "byteWarning (sum_list (map length chunks)) (contentLengthHeader d)
                   \<in> set (warningsOf (run P inputs env))"
      by simp
  next
    assume sd: "reachesDone P inputs env \<and> fetchCalls (run P inputs env) > 0"
      and m: "contentLengthHeader d > 0 \<and> sum_list (map length chunks) \<noteq> contentLengthHeader d"
    with counted show "map_of (outputsOf (run P inputs env)) ''content-length''
                     \<noteq> Some (toString (contentLengthHeader d))"
      by (auto dest: toString_inj)
  qed
qed

theorem content_length_is_counted_bytes_witness:
  "download_response mismatchEnv = Inr (sampleDownload 100 [replicate 60 0, replicate 35 0])
   \<and> dr_stream (sampleDownload 100 [replicate 60 0, replicate 35 0])
       = newByteCountingStream [replicate 60 0, replicate 35 0]
   \<and> contentLengthHeader (sampleDownload 100 [replicate 60 0, replicate 35 0]) = 100
   \<and> requiredSupplied (sampleInputs [])
   \<and> gatePasses (sampleInputs []) mismatchEnv
   \<and> configuredStorageClass (sampleInputs []) \<in> set validClasses
   \<and> getInput (sampleInputs []) ''predefined-acl'' = []
   \<and> fst (pipe (writeStream_error mismatchEnv) 0
             (dr_stream (sampleDownload 100 [replicate 60 0, replicate 35 0]))
             (unread (dr_stream (sampleDownload 100 [replicate 60 0, replicate 35 0])))) = None
   \<and> setStorageClass_error mismatchEnv = None
   \<and> getMetadata_response mismatchEnv = Inr (Some ''1700000000000000'')
   \<and> reachesDone noJSON (sampleInputs []) mismatchEnv
   \<and> fetchCalls (run noJSON (sampleInputs []) mismatchEnv) > 0
   \<and> map_of (outputsOf (run noJSON (sampleInputs []) mismatchEnv)) ''content-length'' = Some ''95''
   \<and> failuresOf (run noJSON (sampleInputs []) mismatchEnv) = []
   \<and> ''Bytes transferred (95) differs from Content-Length header (100)''
        \<in> set (warningsOf (run noJSON (sampleInputs []) mismatchEnv))"
proof -
  have c: "download_response mismatchEnv = Inr (sampleDownload 100 [replicate 60 0, replicate 35 0])"
    by (simp add: mismatchEnv_def)
  have d: "dr_stream (sampleDownload 100 [replicate 60 0, replicate 35 0])
           = newByteCountingStream [replicate 60 0, replicate 35 0]"
    by (simp add: sampleDownload_def)
  have e: "contentLengthHeader (sampleDownload 100 [replicate 60 0, replicate 35 0]) = 100"
    by (simp add: sampleDownload_def)
  have f: "toString (sum_list (map length [replicate 60 (0::8 word), replicate 35 0])) = ''95''"
    by code_simp
  have g: "byteWarning (sum_list (map length [replicate 60 (0::8 word), replicate 35 0])) 100
           = ''Bytes transferred (95) differs from Content-Length header (100)''"
    by code_simp
  have h1: "requiredSupplied (sampleInputs [])"
    by code_simp
  have h2: "gatePasses (sampleInputs []) mismatchEnv"
    by code_simp
  have h3: "configuredStorageClass (sampleInputs []) \<in> set validClasses"
    by code_simp
  have h4: "getInput (sampleInputs []) ''predefined-acl'' = []"
    by code_simp
  have h5: "fst (pipe (writeStream_error mismatchEnv) 0
             (dr_stream (sampleDownload 100 [replicate 60 0, replicate 35 0]))
             (unread (dr_stream (sampleDownload 100 [replicate 60 0, replicate 35 0])))) = None"
    by (simp add: mismatchEnv_def sampleEnv_def sampleDownload_def newByteCountingStream_def)
  have h6: "setStorageClass_error mismatchEnv = None"
    by (simp add: mismatchEnv_def sampleEnv_def)
  have h7: "getMetadata_response mismatchEnv = Inr (Some ''1700000000000000'')"
    by (simp add: mismatchEnv_def sampleEnv_def)
  show ?thesis
    using c d e f g h1 h2 h3 h4 h5 h6 h7
      content_length_is_counted_bytes
        [OF c d, where inputs = "sampleInputs []" and P = noJSON
           and g = "Some ''1700000000000000''"]
    by simp
qed

section \<open>A failed storage-class update\<close>

text \<open>
  Claim C10. When the storage class is a valid one (the default or not), the streamed write
  has completed and the storage-class update after it fails, the whole transfer fails: the
  run does not reach Done, the error goes to \<open>setFailed\<close> as an upload failure
  ("Failed to upload to GCS: ..."), no output is set, and no warning is recorded for it.
\<close>

theorem storage_class_update_failure_is_fatal:
  assumes "requiredSupplied inputs"
      and "gatePasses inputs env"
      and "download_response env = Inr d"
      and "configuredStorageClass inputs \<in> set validClasses"
      and "getInput inputs ''predefined-acl'' = [] \<or> getInput inputs ''predefined-acl'' \<in> set validAcls"
      and "fst (pipe (writeStream_error env) 0 (dr_stream d) (unread (dr_stream d))) = None"
      and "setStorageClass_error env = Some e"
  shows "\<not> reachesDone P inputs env
       \<and> failuresOf (run P inputs env) = [failureMessage (uploadFailure e)]
       \<and> outputsOf (run P inputs env) = []
       \<and> warningsOf (run P inputs env) = parseWarnings P inputs"
proof -
  from transfer_storage_class_error [OF assms(3,4,5,6,7)]
  obtain w where ct: "configuredTransfer P inputs env =
      ([DownloadAsStream,
        CreateWriteStream (getInput inputs ''gcs-bucket'') (getInput inputs ''gcs-object'') w,
        SetStorageClass (configuredStorageClass inputs)], Inl (uploadFailure e))"
    unfolding configuredTransfer_def by blast
  show ?thesis
    using assms(2)
    by (auto simp: run_supplied [OF assms(1)] runTry_supplied [OF assms(1)] reachesDone_def ct
          Let_def projections gatePasses_def)
qed


theorem storage_class_update_failure_is_fatal_witness:
  "requiredSupplied (sampleInputs [(''storage-class'', ''NEARLINE'')])
   \<and> gatePasses (sampleInputs [(''storage-class'', ''NEARLINE'')]) updateFailsEnv
   \<and> configuredStorageClass (sampleInputs [(''storage-class'', ''NEARLINE'')]) \<in> set validClasses
   \<and> setStorageClass_error updateFailsEnv = Some (Error ''Forbidden'')
   \<and> \<not> reachesDone noJSON (sampleInputs [(''storage-class'', ''NEARLINE'')]) updateFailsEnv
   \<and> failuresOf (run noJSON (sampleInputs [(''storage-class'', ''NEARLINE'')]) updateFailsEnv)
       = [''Action failed: Failed to upload to GCS: Forbidden'']
   \<and> outputsOf (run noJSON (sampleInputs [(''storage-class'', ''NEARLINE'')]) updateFailsEnv) = []"
proof -
  have a: "requiredSupplied (sampleInputs [(''storage-class'', ''NEARLINE'')])"
    by code_simp
  have b: "gatePasses (sampleInputs [(''storage-class'', ''NEARLINE'')]) updateFailsEnv"
    by code_simp
  have c: "download_response updateFailsEnv = Inr (sampleDownload 5 [[1, 2, 3], [4]])"
    by (simp add: updateFailsEnv_def sampleEnv_def)
  have d: "configuredStorageClass (sampleInputs [(''storage-class'', ''NEARLINE'')]) \<in> set validClasses"
    by code_simp
  have e: "getInput (sampleInputs [(''storage-class'', ''NEARLINE'')]) ''predefined-acl'' = []
           \<or> getInput (sampleInputs [(''storage-class'', ''NEARLINE'')]) ''predefined-acl'' \<in> set validAcls"
    by code_simp
  have f: "fst (pipe (writeStream_error updateFailsEnv) 0 (dr_stream (sampleDownload 5 [[1, 2, 3], [4]]))
                  (unread (dr_stream (sampleDownload 5 [[1, 2, 3], [4]])))) = None"
    by (simp add: updateFailsEnv_def sampleEnv_def sampleDownload_def newByteCountingStream_def)
  have g: "setStorageClass_error updateFailsEnv = Some (Error ''Forbidden'')"
    by (simp add: updateFailsEnv_def)
  have h: "failureMessage (uploadFailure (Error ''Forbidden''))
           = ''Action failed: Failed to upload to GCS: Forbidden''"
    by (simp add: uploadFailure_def)
  show ?thesis
    using a b d g h storage_class_update_failure_is_fatal [OF a b c d e f g, of noJSON]
    by simp
qed

section \<open>The key-value parser\<close>



text \<open>
  Claim C8, as the program has it. When the trimmed input starts with a brace and
  \<open>JSON.parse\<close> succeeds, the parser checks that the result has type object and is not
  an array: a string, a number, a boolean or an array is rejected with the warning and
  absent is returned. An object is returned as it was parsed, whatever its values; nested
  values are not looked at. (The check also lets \<open>null\<close> through.)
\<close>

theorem json_object_validation:
  assumes "startsWith (trim inp) (CHR ''{'')" and "P (trim inp) = Inr parsed"
  shows "parseKeyValuePairs P (Some inp) name =
           (case parsed of
              JObject ps \<Rightarrow> ([], Some parsed)
            | JNull \<Rightarrow> ([], Some parsed)
            | _ \<Rightarrow> ([name @ '' must be a JSON object''], None))"
proof -
  from assms(1) have "trim inp \<noteq> []"
    by (cases "trim inp") auto
  moreover from this have "inp \<noteq> []"
    by (auto simp: trim_def)
  ultimately show ?thesis
    using assms by (cases parsed) (simp_all add: parseKeyValuePairs_def)
qed


theorem json_object_validation_witness:
  "startsWith (trim nestedText) (CHR ''{'')
   \<and> sampleJSON (trim nestedText) = Inr (JObject [(''a'', JObject [(''b'', JString ''c'')])])
   \<and> parseKeyValuePairs sampleJSON (Some nestedText) ''headers''
       = ([], Some (JObject [(''a'', JObject [(''b'', JString ''c'')])]))"
proof -
  have a: "startsWith (trim nestedText) (CHR ''{'')"
    by code_simp
  have b: "sampleJSON (trim nestedText) = Inr (JObject [(''a'', JObject [(''b'', JString ''c'')])])"
    by code_simp
  show ?thesis
    using a b json_object_validation [where P = sampleJSON and inp = nestedText and name = "''headers''", OF a b]
    by simp
qed

text \<open>
  Claim C8 as stated fails: the object with the nested value a = {b: "c"} is not flat, and
  the parser returns it without a warning.
\<close>

theorem nested_object_counterexample:
  "startsWith (trim nestedText) (CHR ''{'')
   \<and> sampleJSON (trim nestedText) = Inr (JObject [(''a'', JObject [(''b'', JString ''c'')])])
   \<and> \<not> isFlatObject (JObject [(''a'', JObject [(''b'', JString ''c'')])])
   \<and> parseKeyValuePairs sampleJSON (Some nestedText) ''metadata''
       = ([], Some (JObject [(''a'', JObject [(''b'', JString ''c'')])]))"
  by code_simp


text \<open>
  Claim C9. In the semicolon format a key that appears in several segments is to keep the
  value of its last occurrence. At the key \<open>__proto__\<close> the program does not: the key
  appears in two segments, the last with the value "2", and the parser keeps neither value
  and returns absent.
\<close>

theorem proto_key_dropped:
  "segmentPairs ''__proto__=1; __proto__=2'' = [(''__proto__'', ''1''), (''__proto__'', ''2'')]
   \<and> parseKeyValuePairs P (Some ''__proto__=1; __proto__=2'') name = ([], None)"
  by (simp add: parseKeyValuePairs_def parseSemicolon_def segmentPairs_def segmentPair_def
        string_ops)


theorem proto_key_dropped_witness:
  "parseKeyValuePairs noJSON (Some ''__proto__=1; __proto__=2'') ''headers'' = ([], None)"
  using proto_key_dropped [of noJSON "''headers''"] by simp

section \<open>Retry\<close>

text \<open>
  Claim C5. With retry enabled the fetcher makes between 1 and 3 attempts and surfaces the
  outcome of the last one; the waits before the retries are the base delay doubled each
  time; every attempt that was retried had failed transiently (a network error, 429 or
  5xx), and a run of fewer than 3 attempts ended in success or in a failure that is not
  transient. A 4xx status other than 429 is not transient, and such a first failure is not
  retried. When all three attempts fail transiently the third error is surfaced. When the
  first two fail transiently and the third succeeds, the fetch succeeds after exactly 3
  attempts.
\<close>

theorem fetch_retry_policy:
  "(case fetchWithRetry True base outcomes of
      (res, n, ds) \<Rightarrow>
        1 \<le> n \<and> n \<le> 3 \<and> res = outcomes (n - 1)
        \<and> ds = map (\<lambda>k. base * 2 ^ k) [0..<n - 1]
        \<and> (\<forall>k < n - 1. \<not> succeeded (outcomes k) \<and> transient (outcomes k))
        \<and> (n < 3 \<longrightarrow> succeeded res \<or> \<not> transient res))
   \<and> (400 \<le> c \<and> c < 500 \<and> c \<noteq> 429 \<longrightarrow>
        \<not> transient (HttpStatus c) \<and> \<not> succeeded (HttpStatus c))
   \<and> (\<not> succeeded (outcomes 0) \<and> \<not> transient (outcomes 0) \<longrightarrow>
        fetchWithRetry True base outcomes = (outcomes 0, 1, []))
   \<and> ((\<forall>k < 3. \<not> succeeded (outcomes k) \<and> transient (outcomes k)) \<longrightarrow>
        fetchWithRetry True base outcomes = (outcomes 2, 3, [base, base * 2]))
   \<and> ((\<forall>k < 2. \<not> succeeded (outcomes k) \<and> transient (outcomes k)) \<and> succeeded (outcomes 2) \<longrightarrow>
        fetchWithRetry True base outcomes = (outcomes 2, 3, [base, base * 2]))"
proof -
  have upt2: "[0..<2] = [0, Suc 0]"
    by (simp add: numeral_2_eq_2)
  have less2: "(\<forall>k<2. Q k) \<longleftrightarrow> Q 0 \<and> Q (Suc 0)" for Q :: "nat \<Rightarrow> bool"
    by (auto simp: numeral_2_eq_2 less_Suc_eq)
  have less3: "(\<forall>k<3. Q k) \<longleftrightarrow> Q 0 \<and> Q (Suc 0) \<and> Q 2" for Q :: "nat \<Rightarrow> bool"
    by (auto simp: numeral_3_eq_3 numeral_2_eq_2 less_Suc_eq)
  show ?thesis
    by (simp add: fetchWithRetry_enabled upt2 less2 less3)
qed


theorem fetch_retry_policy_witness:
  "\<not> succeeded (twoFailuresThenSuccess 0) \<and> transient (twoFailuresThenSuccess 0)
   \<and> \<not> succeeded (twoFailuresThenSuccess 1) \<and> transient (twoFailuresThenSuccess 1)
   \<and> succeeded (twoFailuresThenSuccess 2)
   \<and> fetchWithRetry True 1000 twoFailuresThenSuccess = (HttpStatus 200, 3, [1000, 2000])
   \<and> \<not> succeeded (alwaysUnavailable 0) \<and> transient (alwaysUnavailable 0)
   \<and> \<not> succeeded (alwaysUnavailable 1) \<and> transient (alwaysUnavailable 1)
   \<and> \<not> succeeded (alwaysUnavailable 2) \<and> transient (alwaysUnavailable 2)
   \<and> fetchWithRetry True 1000 alwaysUnavailable = (HttpStatus 502, 3, [1000, 2000])
   \<and> \<not> succeeded (notFound 0) \<and> \<not> transient (notFound 0)
   \<and> fetchWithRetry True 1000 notFound = (HttpStatus 404, 1, [])"
proof -
  have less2: "(\<forall>k<2. Q k) \<longleftrightarrow> Q 0 \<and> Q (Suc 0)" for Q :: "nat \<Rightarrow> bool"
    by (auto simp: numeral_2_eq_2 less_Suc_eq)
  have less3: "(\<forall>k<3. Q k) \<longleftrightarrow> Q 0 \<and> Q (Suc 0) \<and> Q 2" for Q :: "nat \<Rightarrow> bool"
    by (auto simp: numeral_3_eq_3 numeral_2_eq_2 less_Suc_eq)
  have a: "(\<forall>k < 2. \<not> succeeded (twoFailuresThenSuccess k) \<and> transient (twoFailuresThenSuccess k))
           \<and> succeeded (twoFailuresThenSuccess 2)"
    by (simp add: less2 twoFailuresThenSuccess_def)
  have b: "\<forall>k < 3. \<not> succeeded (alwaysUnavailable k) \<and> transient (alwaysUnavailable k)"
    by (simp add: less3 alwaysUnavailable_def)
  have c: "\<not> succeeded (notFound 0) \<and> \<not> transient (notFound 0)"
    by (simp add: notFound_def)
  show ?thesis
    using a b c
      fetch_retry_policy [where base = 1000 and outcomes = twoFailuresThenSuccess and c = 404]
      fetch_retry_policy [where base = 1000 and outcomes = alwaysUnavailable and c = 404]
      fetch_retry_policy [where base = 1000 and outcomes = notFound and c = 404]
    by (simp add: twoFailuresThenSuccess_def alwaysUnavailable_def notFound_def)
qed

end
